theory Spec2Isabelle
  imports Complex_Main
begin

section \<open>Data model of the multi-object tracker\<close>

text \<open>
  The tracker of \<^verbatim>\<open>MultiObjectTracker\<close> drives a particle filter that lives in a
  library outside the sources. The embedding keeps the tracker's own code as HOL
  functions and takes the filter as a record of operations on an abstract filter
  state \<open>'f\<close>. Every call the tracker makes on \<^verbatim>\<open>filter_\<close> is applied to the
  filter state and appended, with its arguments (and for a read, its result), to a
  call log carried next to the filter state.

  Modelling decisions:
  \<^item> \<^verbatim>\<open>Eigen::VectorXd\<close> and \<^verbatim>\<open>sf::FloatingBodySystem\<close> are flat coordinate
    vectors with six coordinates per body (position, then orientation), as the
    source's \<^verbatim>\<open>object_names_.size()*6\<close> has it;
  \<^item> \<^verbatim>\<open>Scalar\<close> time stamps are reals; the NaN that marks an unset
    \<^verbatim>\<open>last_measurement_time_\<close> is \<open>None\<close>;
  \<^item> sizes (\<^verbatim>\<open>size_t\<close>) are naturals; the one mixed signed/unsigned division of the
    source is written out with its conversion to 64-bit unsigned;
  \<^item> undefined behaviour of the source (null \<^verbatim>\<open>filter_\<close>, a vector read out of
    range, an Eigen block assignment of the wrong size, integer division by zero) is a
    value of type \<open>error\<close>;
  \<^item> a call on the library may raise an exception. The source catches none, so the
    exception leaves \<^verbatim>\<open>Initialize\<close> or \<^verbatim>\<open>Filter\<close> at once: both return, next to the
    outcome, the members of the tracker as they stand at that point. A mutating call on
    the filter returns the state it leaves the filter in and the exception, if any;
  \<^item> the scoped lock, console output and marker publishing do not change the
    tracker's state and are left out.
\<close>

type_synonym vec = "real list"

type_synonym schedule = "nat list list"

text \<open>The exceptions of the library, after the error taxonomy of the specification.\<close>

datatype failure =
    InvalidConfiguration
  | SensorInputMismatch
  | DegeneratePopulation
  | ZeroTargetSize
  | CollaboratorFailure

datatype error = NullFilter | IndexOutOfRange | SizeMismatch | DivisionByZero | Thrown failure

text \<open>\<^verbatim>\<open>sensor_msgs::Image\<close>: the time stamp (\<^verbatim>\<open>header.stamp.toSec()\<close>), the size and the
  pixel data.\<close>

record image =
  stamp :: real
  height :: nat
  width :: nat
  data :: "real list"

text \<open>\<^verbatim>\<open>Observation\<close>: the depth image as a matrix.\<close>

record observation =
  rows :: nat
  cols :: nat
  cells :: "real list"

text \<open>The parameters \<^verbatim>\<open>Initialize\<close> reads with \<^verbatim>\<open>ri::ReadParameter\<close>, under the source's
  names, and the compile-time flag \<^verbatim>\<open>BUILD_GPU\<close>.\<close>

record config =
  BUILD_GPU :: bool
  use_gpu :: bool
  evaluation_count :: int
  sampling_blocks :: schedule
  max_kl_divergence :: real
  max_sample_count :: int
  p_visible_init :: real
  p_visible_visible :: real
  p_visible_occluded :: real
  linear_acceleration_sigma :: real
  angular_acceleration_sigma :: real
  damping :: real
  tail_weight :: real
  model_sigma :: real
  sigma_factor :: real

text \<open>What the constructors of the observation model, the process model and the filter
  receive (lines 300 to 387 of the source): every parameter read but
  \<^verbatim>\<open>evaluation_count\<close>, which the source uses at line 432 only.\<close>

record filter_args =
  arg_gpu :: bool
  arg_camera :: "vec list"
  arg_rows :: nat
  arg_cols :: nat
  arg_capacity :: int
  arg_objects :: "string list"
  arg_blocks :: schedule
  arg_max_kl_divergence :: real
  arg_p_visible_init :: real
  arg_p_visible_visible :: real
  arg_p_visible_occluded :: real
  arg_linear_acceleration_sigma :: real
  arg_angular_acceleration_sigma :: real
  arg_damping :: real
  arg_tail_weight :: real
  arg_model_sigma :: real
  arg_sigma_factor :: real

text \<open>The calls on \<^verbatim>\<open>filter_\<close>: \<^verbatim>\<open>SamplingBlocks(blocks)\<close>, \<^verbatim>\<open>Samples(samples)\<close>,
  \<^verbatim>\<open>Filter(image, delta_time, input)\<close>, \<^verbatim>\<open>Resample(count)\<close>, and the reads
  \<^verbatim>\<open>Samples()\<close> and \<^verbatim>\<open>StateDistribution().Mean()\<close> with the value returned.\<close>

datatype call =
    SamplingBlocksCall schedule
  | SamplesCall "vec list"
  | FilterCall observation real vec
  | ResampleCall nat
  | SamplesRead "vec list"
  | MeanRead vec

text \<open>The collaborators declared outside the sources, as operations.\<close>

record 'f collaborators =
  Ros2Eigen :: "image \<Rightarrow> int \<Rightarrow> failure + observation"
  scale_camera :: "vec list \<Rightarrow> int \<Rightarrow> vec list"
  new_filter :: "filter_args \<Rightarrow> failure + 'f"
  set_sampling_blocks :: "schedule \<Rightarrow> 'f \<Rightarrow> 'f \<times> failure option"
  set_samples :: "vec list \<Rightarrow> 'f \<Rightarrow> 'f \<times> failure option"
  filter_step :: "observation \<Rightarrow> real \<Rightarrow> vec \<Rightarrow> 'f \<Rightarrow> 'f \<times> failure option"
  resample :: "nat \<Rightarrow> 'f \<Rightarrow> 'f \<times> failure option"
  get_samples :: "'f \<Rightarrow> vec list"
  get_mean :: "'f \<Rightarrow> vec"

type_synonym 'f handle = "'f \<times> call list"

text \<open>The members of \<^verbatim>\<open>MultiObjectTracker\<close>.\<close>

record 'f tracker =
  object_names :: "string list"
  downsampling_factor :: int
  last_measurement_time :: "real option"
  filter_ptr :: "'f handle option"

section \<open>The calls on the filter\<close>

text \<open>A mutating call: the filter takes the state the call leaves, the call is logged, and
  an exception of the call is passed on.\<close>

definition call_on ::
  "('f \<Rightarrow> 'f \<times> failure option) \<Rightarrow> call \<Rightarrow> 'f handle \<Rightarrow> 'f handle \<times> error option" where
  "call_on method c h =
     ((fst (method (fst h)), snd h @ [c]), map_option Thrown (snd (method (fst h))))"

definition SamplingBlocks ::
  "'f collaborators \<Rightarrow> schedule \<Rightarrow> 'f handle \<Rightarrow> 'f handle \<times> error option" where
  "SamplingBlocks ops blocks = call_on (set_sampling_blocks ops blocks) (SamplingBlocksCall blocks)"

definition Samples ::
  "'f collaborators \<Rightarrow> vec list \<Rightarrow> 'f handle \<Rightarrow> 'f handle \<times> error option" where
  "Samples ops samples = call_on (set_samples ops samples) (SamplesCall samples)"

definition FilterStep ::
  "'f collaborators \<Rightarrow> observation \<Rightarrow> real \<Rightarrow> vec \<Rightarrow> 'f handle
     \<Rightarrow> 'f handle \<times> error option" where
  "FilterStep ops depth delta_time input =
     call_on (filter_step ops depth delta_time input) (FilterCall depth delta_time input)"

definition Resample ::
  "'f collaborators \<Rightarrow> nat \<Rightarrow> 'f handle \<Rightarrow> 'f handle \<times> error option" where
  "Resample ops count = call_on (resample ops count) (ResampleCall count)"

definition ReadSamples :: "'f collaborators \<Rightarrow> 'f handle \<Rightarrow> vec list \<times> 'f handle" where
  "ReadSamples ops h =
     (get_samples ops (fst h), (fst h, snd h @ [SamplesRead (get_samples ops (fst h))]))"

definition ReadMean :: "'f collaborators \<Rightarrow> 'f handle \<Rightarrow> vec \<times> 'f handle" where
  "ReadMean ops h = (get_mean ops (fst h), (fst h, snd h @ [MeanRead (get_mean ops (fst h))]))"

text \<open>Statements in sequence: the next one runs unless an error has left the function.\<close>

definition and_then ::
  "'f handle \<times> error option \<Rightarrow> ('f handle \<Rightarrow> 'f handle \<times> error option)
     \<Rightarrow> 'f handle \<times> error option" where
  "and_then r next_statement =
     (case snd r of None \<Rightarrow> next_statement (fst r) | Some e \<Rightarrow> r)"

section \<open>The constructor\<close>

text \<open>Lines 253 to 260: the names and the downsampling factor are read from the
  parameter server, the clock is NaN, no filter exists yet.\<close>

definition MultiObjectTracker :: "string list \<Rightarrow> int \<Rightarrow> 'f tracker" where
  "MultiObjectTracker names factor =
     \<lparr>object_names = names, downsampling_factor = factor,
      last_measurement_time = None, filter_ptr = None\<rparr>"

section \<open>Initialize\<close>

text \<open>\<^verbatim>\<open>ProcessModel::Input::Zero(object_names_.size()*6)\<close>.\<close>

definition Zero :: "nat \<Rightarrow> vec" where
  "Zero n = replicate n 0"

text \<open>Lines 390 to 393: one block that holds every coordinate index.\<close>

definition dependent_sampling_blocks :: "nat \<Rightarrow> schedule" where
  "dependent_sampling_blocks k = [map (\<lambda>i. i) [0..<k * 6]]"

text \<open>\<^verbatim>\<open>state.position(b) = p\<close> overwrites the three position coordinates of body \<open>b\<close>.\<close>

definition set_position :: "nat \<Rightarrow> vec \<Rightarrow> vec \<Rightarrow> vec" where
  "set_position b p s = take (b * 6) s @ p @ drop (b * 6 + 3) s"

text \<open>Modelled from the spec: the class \<^verbatim>\<open>sf::FloatingBodySystem\<close> is declared outside
  the sources. The spec has one fixed sentinel pose for all objects, so its constructor
  gives every body the same coordinates; they are taken as zeros. Lines 398 to 400 then
  set the position of every body to \<open>(0, 0, 1.5)\<close>.\<close>

definition default_state :: "nat \<Rightarrow> vec" where
  "default_state k =
     fold (\<lambda>object_index s. set_position object_index [0, 0, 1.5] s) [0..<k] (Zero (k * 6))"

text \<open>\<^verbatim>\<open>state[b] = v\<close> assigns the six coordinates of body \<open>b\<close>; Eigen requires the
  block to exist and the sizes to agree.\<close>

definition set_body :: "nat \<Rightarrow> vec \<Rightarrow> vec \<Rightarrow> error + vec" where
  "set_body b v s =
     (if length s < b * 6 + 6 \<or> length v \<noteq> 6 then Inl SizeMismatch
      else Inr (take (b * 6) s @ v @ drop (b * 6 + 6) s))"

definition body :: "nat \<Rightarrow> vec \<Rightarrow> vec" where
  "body b s = take 6 (drop (b * 6) s)"

text \<open>Lines 410 to 415: the loop over \<^verbatim>\<open>state_index\<close>.\<close>

function inject ::
  "nat \<Rightarrow> vec list \<Rightarrow> nat \<Rightarrow> vec list \<Rightarrow> error + vec list" where
  "inject body_index initial_states state_index multi_body_samples =
     (if state_index < length multi_body_samples then
        if length initial_states \<le> state_index then Inl IndexOutOfRange
        else
          case set_body body_index (initial_states ! state_index)
                 (multi_body_samples ! state_index) of
            Inl e \<Rightarrow> Inl e
          | Inr full_initial_state \<Rightarrow>
              inject body_index initial_states (Suc state_index)
                (multi_body_samples[state_index := full_initial_state])
      else Inr multi_body_samples)"
  by pat_completeness auto
termination
  by (relation "measure (\<lambda>(b, cs, i, ms). length ms - i)") auto

text \<open>Lines 407 to 421: the loop over \<^verbatim>\<open>body_index\<close>.\<close>

function stages ::
  "'f collaborators \<Rightarrow> observation \<Rightarrow> nat \<Rightarrow> vec list \<Rightarrow> nat \<Rightarrow> vec list \<Rightarrow> 'f handle
     \<Rightarrow> 'f handle \<times> error option" where
  "stages ops depth k initial_states body_index multi_body_samples h =
     (if body_index < k then
        case inject body_index initial_states 0 multi_body_samples of
          Inl e \<Rightarrow> (h, Some e)
        | Inr injected \<Rightarrow>
            let r = and_then
                      (and_then (Samples ops injected h)
                         (FilterStep ops depth 0 (Zero (k * 6))))
                      (Resample ops (length injected))
            in case snd r of
                 Some e \<Rightarrow> r
               | None \<Rightarrow>
                   stages ops depth k initial_states (Suc body_index)
                     (fst (ReadSamples ops (fst r))) (snd (ReadSamples ops (fst r)))
      else (h, None))"
  by pat_completeness auto
termination
  by (relation "measure (\<lambda>(ops, depth, k, cs, b, ms, h). k - b)") auto

declare inject.simps [simp del] stages.simps [simp del]

text \<open>Line 432: \<^verbatim>\<open>evaluation_count/sampling_blocks.size()\<close> divides an \<^verbatim>\<open>int\<close> by a
  \<^verbatim>\<open>size_t\<close>: the \<^verbatim>\<open>int\<close> is converted to 64-bit unsigned first.\<close>

definition operating_size :: "config \<Rightarrow> error + nat" where
  "operating_size cfg =
     (if length (sampling_blocks cfg) = 0 then Inl DivisionByZero
      else Inr (nat (evaluation_count cfg mod 2 ^ 64) div length (sampling_blocks cfg)))"

text \<open>Lines 300 to 387: the arguments of the constructors. The CPU observation model is
  sized by the number of initial states, the GPU one by \<^verbatim>\<open>max_sample_count\<close>.\<close>

definition constructor_args ::
  "config \<Rightarrow> string list \<Rightarrow> vec list \<Rightarrow> observation \<Rightarrow> nat \<Rightarrow> filter_args" where
  "constructor_args cfg names camera depth count =
     \<lparr>arg_gpu = (use_gpu cfg \<and> BUILD_GPU cfg),
      arg_camera = camera,
      arg_rows = rows depth,
      arg_cols = cols depth,
      arg_capacity = (if use_gpu cfg \<and> BUILD_GPU cfg then max_sample_count cfg else int count),
      arg_objects = names,
      arg_blocks = sampling_blocks cfg,
      arg_max_kl_divergence = max_kl_divergence cfg,
      arg_p_visible_init = p_visible_init cfg,
      arg_p_visible_visible = p_visible_visible cfg,
      arg_p_visible_occluded = p_visible_occluded cfg,
      arg_linear_acceleration_sigma = linear_acceleration_sigma cfg,
      arg_angular_acceleration_sigma = angular_acceleration_sigma cfg,
      arg_damping = damping cfg,
      arg_tail_weight = tail_weight cfg,
      arg_model_sigma = model_sigma cfg,
      arg_sigma_factor = sigma_factor cfg\<rparr>"

text \<open>Lines 395 to 431, on the filter just built: the staged seeding or the full one.\<close>

definition seed ::
  "'f collaborators \<Rightarrow> observation \<Rightarrow> nat \<Rightarrow> vec list \<Rightarrow> bool \<Rightarrow> 'f handle
     \<Rightarrow> 'f handle \<times> error option" where
  "seed ops depth k initial_states state_is_partial h =
     (if state_is_partial then
        stages ops depth k initial_states 0
          (replicate (length initial_states) (default_state k)) h
      else
        and_then (Samples ops initial_states h) (FilterStep ops depth 0 (Zero (k * 6))))"

text \<open>Lines 432 and 433.\<close>

definition finish :: "'f collaborators \<Rightarrow> config \<Rightarrow> 'f handle \<Rightarrow> 'f handle \<times> error option" where
  "finish ops cfg h =
     (case operating_size cfg of
        Inl e \<Rightarrow> (h, Some e)
      | Inr count \<Rightarrow> and_then (Resample ops count h) (SamplingBlocks ops (sampling_blocks cfg)))"

text \<open>Lines 262 to 434. \<^verbatim>\<open>filter_\<close> is assigned at line 386, once the constructors have
  returned; an error before leaves the tracker as it was.\<close>

definition Initialize ::
  "'f collaborators \<Rightarrow> config \<Rightarrow> vec list \<Rightarrow> image \<Rightarrow> vec list \<Rightarrow> bool \<Rightarrow> 'f tracker
     \<Rightarrow> error option \<times> 'f tracker" where
  "Initialize ops cfg initial_states ros_image camera_matrix state_is_partial tr =
     (let k = length (object_names tr);
          camera = scale_camera ops camera_matrix (downsampling_factor tr)
      in case Ros2Eigen ops ros_image (downsampling_factor tr) of
           Inl e \<Rightarrow> (Some (Thrown e), tr)
         | Inr depth \<Rightarrow>
             (case new_filter ops
                     (constructor_args cfg (object_names tr) camera depth
                        (length initial_states)) of
                Inl e \<Rightarrow> (Some (Thrown e), tr)
              | Inr f \<Rightarrow>
                  let r = and_then
                            (and_then
                               (SamplingBlocks ops (dependent_sampling_blocks k) (f, []))
                               (seed ops depth k initial_states state_is_partial))
                            (finish ops cfg)
                  in (snd r, tr\<lparr>filter_ptr := Some (fst r)\<rparr>)))"

section \<open>Filter\<close>

text \<open>Lines 436 to 465. Line 441 sets an unset clock before the frame is converted and
  the filter called; line 463 is reached only when the filter step has returned.\<close>

definition Filter ::
  "'f collaborators \<Rightarrow> image \<Rightarrow> 'f tracker \<Rightarrow> (error + vec) \<times> 'f tracker" where
  "Filter ops ros_image tr =
     (let last = (case last_measurement_time tr of
                    None \<Rightarrow> stamp ros_image
                  | Some t \<Rightarrow> t);
          tr1 = tr\<lparr>last_measurement_time := Some last\<rparr>;
          delta_time = stamp ros_image - last
      in case Ros2Eigen ops ros_image (downsampling_factor tr) of
           Inl e \<Rightarrow> (Inl (Thrown e), tr1)
         | Inr depth \<Rightarrow>
             (case filter_ptr tr of
                None \<Rightarrow> (Inl NullFilter, tr1)
              | Some h \<Rightarrow>
                  let r = FilterStep ops depth delta_time
                            (Zero (length (object_names tr) * 6)) h
                  in case snd r of
                       Some e \<Rightarrow> (Inl e, tr1\<lparr>filter_ptr := Some (fst r)\<rparr>)
                     | None \<Rightarrow>
                         let m1 = ReadMean ops (fst r);
                             m2 = ReadMean ops (snd m1)
                         in (Inr (fst m2),
                             tr1\<lparr>last_measurement_time := Some (stamp ros_image),
                                 filter_ptr := Some (snd m2)\<rparr>)))"

section \<open>The filter of the specification\<close>

text \<open>Modelled from the spec: the filter library (filter step, process model, resampler)
  is not part of the sources. Its contract says that a propagation with zero elapsed time
  is the identity on the states, and that resampling a population to a target size
  greater than zero returns that many particles, each taken from the population. For a
  stage of the staged initialization this gives: when \<^verbatim>\<open>Samples(s)\<close> with a non-empty \<open>s\<close>,
  a filter step at zero elapsed time and \<^verbatim>\<open>Resample(s.size())\<close> have returned, \<^verbatim>\<open>Samples()\<close>
  returns as many states as were set, each one of them. Nothing is said of an empty
  population or of calls that raise.\<close>

definition selects_at_rest :: "'f collaborators \<Rightarrow> bool" where
  "selects_at_rest ops \<longleftrightarrow>
     (\<forall>samples depth input f f1 f2 f3.
        samples \<noteq> [] \<and>
        set_samples ops samples f = (f1, None) \<and>
        filter_step ops depth 0 input f1 = (f2, None) \<and>
        resample ops (length samples) f2 = (f3, None) \<longrightarrow>
        length (get_samples ops f3) = length samples \<and>
        set (get_samples ops f3) \<subseteq> set samples)"

text \<open>Modelled from the spec: a deterministic filter for running the tracker on concrete
  inputs, with the rejections of the specification.
  \<^item> Construction rejects a configuration whose sampling blocks do not cover the state
    dimension (six per object) exactly once, or whose visibility probabilities lie
    outside \<open>[0, 1]\<close>; it keeps the frame size it is built for.
  \<^item> A schedule set later may be a reduced one: its indices are distinct and below the
    state dimension, or it is rejected.
  \<^item> A filter step rejects a frame of another size than the filter was built for, and
    an empty population; in both cases the population stays as it was. Otherwise it
    moves every coordinate by the elapsed time (at zero elapsed time: the identity).
  \<^item> Resampling rejects the target size zero and an empty population; otherwise it
    takes the samples in turn, cyclically, up to the target size.
  \<^item> The point estimate is the first sample.
  \<^item> The conversion of a frame keeps its cells and divides its height and width by the
    downsampling factor; the camera matrix has its first two rows divided by it (line
    271 of the source).\<close>

record particle_filter =
  pf_rows :: nat
  pf_cols :: nat
  pf_dimension :: nat
  pf_blocks :: schedule
  pf_samples :: "vec list"

definition covers :: "schedule \<Rightarrow> nat \<Rightarrow> bool" where
  "covers blocks n \<longleftrightarrow> sort (concat blocks) = [0..<n]"

definition reduced :: "schedule \<Rightarrow> nat \<Rightarrow> bool" where
  "reduced blocks n \<longleftrightarrow> distinct (concat blocks) \<and> list_all (\<lambda>i. i < n) (concat blocks)"

definition probability :: "real \<Rightarrow> bool" where
  "probability p \<longleftrightarrow> 0 \<le> p \<and> p \<le> 1"

definition cyclic :: "nat \<Rightarrow> 'a list \<Rightarrow> 'a list" where
  "cyclic n xs = (if xs = [] then [] else map (\<lambda>i. xs ! (i mod length xs)) [0..<n])"

definition reference :: "particle_filter collaborators" where
  "reference =
     \<lparr>Ros2Eigen = (\<lambda>img factor.
        Inr \<lparr>rows = height img div nat factor, cols = width img div nat factor,
             cells = data img\<rparr>),
      scale_camera = (\<lambda>m factor. map (map (\<lambda>x. x / of_int factor)) (take 2 m) @ drop 2 m),
      new_filter = (\<lambda>args.
        if covers (arg_blocks args) (length (arg_objects args) * 6) \<and>
           probability (arg_p_visible_init args) \<and>
           probability (arg_p_visible_visible args) \<and>
           probability (arg_p_visible_occluded args)
        then Inr \<lparr>pf_rows = arg_rows args, pf_cols = arg_cols args,
                  pf_dimension = length (arg_objects args) * 6,
                  pf_blocks = arg_blocks args, pf_samples = []\<rparr>
        else Inl InvalidConfiguration),
      set_sampling_blocks = (\<lambda>blocks f.
        if reduced blocks (pf_dimension f) then (f\<lparr>pf_blocks := blocks\<rparr>, None)
        else (f, Some InvalidConfiguration)),
      set_samples = (\<lambda>samples f. (f\<lparr>pf_samples := samples\<rparr>, None)),
      filter_step = (\<lambda>depth delta_time input f.
        if rows depth \<noteq> pf_rows f \<or> cols depth \<noteq> pf_cols f
        then (f, Some SensorInputMismatch)
        else if pf_samples f = [] then (f, Some DegeneratePopulation)
        else (f\<lparr>pf_samples := map (map (\<lambda>x. x + delta_time)) (pf_samples f)\<rparr>, None)),
      resample = (\<lambda>count f.
        if count = 0 then (f, Some ZeroTargetSize)
        else if pf_samples f = [] then (f, Some DegeneratePopulation)
        else (f\<lparr>pf_samples := cyclic count (pf_samples f)\<rparr>, None)),
      get_samples = pf_samples,
      get_mean = (\<lambda>f. case pf_samples f of [] \<Rightarrow> [] | s # _ \<Rightarrow> s)\<rparr>"

section \<open>Reading the call log\<close>

definition calls_of :: "'f tracker \<Rightarrow> call list" where
  "calls_of tr = (case filter_ptr tr of None \<Rightarrow> [] | Some h \<Rightarrow> snd h)"

text \<open>The state a filter is in after the calls of a log have been made on it, in order.\<close>

fun replay :: "'f collaborators \<Rightarrow> call list \<Rightarrow> 'f \<Rightarrow> 'f" where
  "replay ops [] f = f"
| "replay ops (SamplingBlocksCall blocks # cs) f =
     replay ops cs (fst (set_sampling_blocks ops blocks f))"
| "replay ops (SamplesCall samples # cs) f = replay ops cs (fst (set_samples ops samples f))"
| "replay ops (FilterCall depth delta_time input # cs) f =
     replay ops cs (fst (filter_step ops depth delta_time input f))"
| "replay ops (ResampleCall count # cs) f = replay ops cs (fst (resample ops count f))"
| "replay ops (SamplesRead samples # cs) f = replay ops cs f"
| "replay ops (MeanRead m # cs) f = replay ops cs f"

text \<open>Every call of the log, made in order on the filter, returns, and every read of the
  log shows what the filter holds at that point.\<close>

fun clean :: "'f collaborators \<Rightarrow> call list \<Rightarrow> 'f \<Rightarrow> bool" where
  "clean ops [] f \<longleftrightarrow> True"
| "clean ops (SamplingBlocksCall blocks # cs) f \<longleftrightarrow>
     snd (set_sampling_blocks ops blocks f) = None \<and>
     clean ops cs (fst (set_sampling_blocks ops blocks f))"
| "clean ops (SamplesCall samples # cs) f \<longleftrightarrow>
     snd (set_samples ops samples f) = None \<and> clean ops cs (fst (set_samples ops samples f))"
| "clean ops (FilterCall depth delta_time input # cs) f \<longleftrightarrow>
     snd (filter_step ops depth delta_time input f) = None \<and>
     clean ops cs (fst (filter_step ops depth delta_time input f))"
| "clean ops (ResampleCall count # cs) f \<longleftrightarrow>
     snd (resample ops count f) = None \<and> clean ops cs (fst (resample ops count f))"
| "clean ops (SamplesRead samples # cs) f \<longleftrightarrow> samples = get_samples ops f \<and> clean ops cs f"
| "clean ops (MeanRead m # cs) f \<longleftrightarrow> m = get_mean ops f \<and> clean ops cs f"

text \<open>The elapsed times of the filter steps of a log, in order.\<close>

fun elapsed_times :: "call list \<Rightarrow> real list" where
  "elapsed_times [] = []"
| "elapsed_times (FilterCall depth delta_time input # cs) = delta_time # elapsed_times cs"
| "elapsed_times (c # cs) = elapsed_times cs"

text \<open>The schedule in force at each filter step of a log, given the schedule in force at
  its start.\<close>

fun active_schedules :: "schedule \<Rightarrow> call list \<Rightarrow> schedule list" where
  "active_schedules cur [] = []"
| "active_schedules cur (SamplingBlocksCall blocks # cs) = active_schedules blocks cs"
| "active_schedules cur (FilterCall depth delta_time input # cs) =
     cur # active_schedules cur cs"
| "active_schedules cur (c # cs) = active_schedules cur cs"

text \<open>The schedules installed by the calls of a log, in order.\<close>

fun schedules_installed :: "call list \<Rightarrow> schedule list" where
  "schedules_installed [] = []"
| "schedules_installed (SamplingBlocksCall blocks # cs) = blocks # schedules_installed cs"
| "schedules_installed (c # cs) = schedules_installed cs"

text \<open>The samples the filter was last handed, at each filter step of a log.\<close>

fun stepped_samples :: "vec list \<Rightarrow> call list \<Rightarrow> vec list list" where
  "stepped_samples cur [] = []"
| "stepped_samples cur (SamplesCall samples # cs) = stepped_samples samples cs"
| "stepped_samples cur (FilterCall depth delta_time input # cs) =
     cur # stepped_samples cur cs"
| "stepped_samples cur (c # cs) = stepped_samples cur cs"

text \<open>The sample sets handed to the filter, in order.\<close>

fun handed_samples :: "call list \<Rightarrow> vec list list" where
  "handed_samples [] = []"
| "handed_samples (SamplesCall samples # cs) = samples # handed_samples cs"
| "handed_samples (c # cs) = handed_samples cs"

text \<open>The four calls of one stage of the staged initialization.\<close>

definition stage_calls :: "observation \<Rightarrow> nat \<Rightarrow> vec list \<Rightarrow> vec list \<Rightarrow> call list" where
  "stage_calls depth k injected returned =
     [SamplesCall injected, FilterCall depth 0 (Zero (k * 6)),
      ResampleCall (length injected), SamplesRead returned]"

text \<open>The value of a successful block assignment.\<close>

definition put_body :: "nat \<Rightarrow> vec \<Rightarrow> vec \<Rightarrow> vec" where
  "put_body b v s = take (b * 6) s @ v @ drop (b * 6 + 6) s"

section \<open>Concrete sessions\<close>

text \<open>Inputs for running the tracker on the filter of the specification: a frame with a
  stamp and a size, a camera matrix, a configuration with a given \<^verbatim>\<open>evaluation_count\<close> and
  sampling blocks, and trackers for one, two and three objects.\<close>

definition frame :: "real \<Rightarrow> nat \<Rightarrow> nat \<Rightarrow> image" where
  "frame t h w = \<lparr>stamp = t, height = h, width = w, data = replicate (h * w) 1\<rparr>"

definition pinhole :: "vec list" where
  "pinhole = [[500, 0, 2], [0, 500, 2], [0, 0, 1]]"

definition settings :: "int \<Rightarrow> schedule \<Rightarrow> config" where
  "settings count blocks =
     \<lparr>BUILD_GPU = False, use_gpu = False, evaluation_count = count,
      sampling_blocks = blocks, max_kl_divergence = 1, max_sample_count = 100,
      p_visible_init = 1 / 2, p_visible_visible = 9 / 10, p_visible_occluded = 1 / 10,
      linear_acceleration_sigma = 1, angular_acceleration_sigma = 1, damping = 1,
      tail_weight = 1 / 100, model_sigma = 1 / 100, sigma_factor = 1 / 100\<rparr>"

definition fresh :: "particle_filter tracker" where
  "fresh = MultiObjectTracker [''box''] 1"

definition pair :: "particle_filter tracker" where
  "pair = MultiObjectTracker [''box'', ''cup''] 1"

definition trio :: "particle_filter tracker" where
  "trio = MultiObjectTracker [''box'', ''cup'', ''can''] 1"

text \<open>A tracker in the middle of a session: its clock is at 2 and its filter, built for
  frames of 2 by 2 pixels, holds one sample.\<close>

definition running :: "particle_filter tracker" where
  "running =
     \<lparr>object_names = [''box''], downsampling_factor = 1, last_measurement_time = Some 2,
      filter_ptr = Some (\<lparr>pf_rows = 2, pf_cols = 2, pf_dimension = 6,
                          pf_blocks = [[0, 1, 2, 3, 4, 5]],
                          pf_samples = [[0, 0, 1, 0, 0, 0]]\<rparr>, [])\<rparr>"

text \<open>The one-object tracker after a full-state initialization with one candidate and
  the operating size 4 on a frame of 4 by 4 pixels.\<close>

definition tracking :: "particle_filter tracker" where
  "tracking =
     \<lparr>object_names = [''box''], downsampling_factor = 1, last_measurement_time = None,
      filter_ptr = Some
        (\<lparr>pf_rows = 4, pf_cols = 4, pf_dimension = 6, pf_blocks = [[0, 1, 2, 3, 4, 5]],
          pf_samples = [[0, 0, 1, 0, 0, 0], [0, 0, 1, 0, 0, 0],
                        [0, 0, 1, 0, 0, 0], [0, 0, 1, 0, 0, 0]]\<rparr>,
         [SamplingBlocksCall [[0, 1, 2, 3, 4, 5]],
          SamplesCall [[0, 0, 1, 0, 0, 0]],
          FilterCall \<lparr>rows = 4, cols = 4, cells = replicate 16 1\<rparr> 0 [0, 0, 0, 0, 0, 0],
          ResampleCall 4,
          SamplingBlocksCall [[0, 1, 2, 3, 4, 5]]])\<rparr>"

text \<open>The filter of the specification as it is built for one object, the schedule of one
  block and frames of 4 by 4 pixels, holding the given samples.\<close>

definition built :: "vec list \<Rightarrow> particle_filter" where
  "built samples =
     \<lparr>pf_rows = 4, pf_cols = 4, pf_dimension = 6, pf_blocks = [[0, 1, 2, 3, 4, 5]],
      pf_samples = samples\<rparr>"

text \<open>A session is a list of calls on one tracker. A caller that catches the exception of
  a call goes on with the tracker as the call left it.\<close>

datatype command = Init config "vec list" image "vec list" bool | Update image

datatype reply = Initialized | Estimate vec | Failed error

fun session ::
  "'f collaborators \<Rightarrow> command list \<Rightarrow> 'f tracker \<Rightarrow> reply list \<times> 'f tracker" where
  "session ops [] tr = ([], tr)"
| "session ops (Init cfg initial_states ros_image camera_matrix state_is_partial # rest) tr =
     (let r = Initialize ops cfg initial_states ros_image camera_matrix state_is_partial tr;
          s = session ops rest (snd r)
      in ((case fst r of None \<Rightarrow> Initialized | Some e \<Rightarrow> Failed e) # fst s, snd s))"
| "session ops (Update ros_image # rest) tr =
     (let r = Filter ops ros_image tr;
          s = session ops rest (snd r)
      in ((case fst r of Inl e \<Rightarrow> Failed e | Inr m \<Rightarrow> Estimate m) # fst s, snd s))"

section \<open>Sequencing, replay and the readers of the log\<close>

lemma and_then_None [simp]: "and_then (h, None) next_statement = next_statement h"
  by (simp add: and_then_def)

lemma and_then_Some [simp]: "and_then (h, Some e) next_statement = (h, Some e)"
  by (simp add: and_then_def)

lemma call_on_None:
  "call_on method c h = (h', None) \<longleftrightarrow>
     method (fst h) = (fst h', None) \<and> snd h' = snd h @ [c]"
  by (cases h; cases h'; cases "method (fst h)") (auto simp: call_on_def)

lemma replay_append: "replay ops (xs @ ys) f = replay ops ys (replay ops xs f)"
  by (induction ops xs f rule: replay.induct) simp_all

lemma clean_append:
  "clean ops (xs @ ys) f \<longleftrightarrow> clean ops xs f \<and> clean ops ys (replay ops xs f)"
  by (induction ops xs f rule: clean.induct) auto

lemma elapsed_times_append: "elapsed_times (xs @ ys) = elapsed_times xs @ elapsed_times ys"
  by (induction xs rule: elapsed_times.induct) simp_all

lemma handed_samples_append: "handed_samples (xs @ ys) = handed_samples xs @ handed_samples ys"
  by (induction xs rule: handed_samples.induct) simp_all

section \<open>Facts about the body blocks\<close>

lemma length_put_body:
  "b * 6 + 6 \<le> length s \<Longrightarrow> length v = 6 \<Longrightarrow> length (put_body b v s) = length s"
  by (simp add: put_body_def)

lemma set_body_Inr:
  "set_body b v s = Inr s' \<longleftrightarrow> s' = put_body b v s \<and> length v = 6 \<and> b * 6 + 6 \<le> length s"
  by (auto simp: set_body_def put_body_def)

lemma body_put_body_same:
  assumes "b * 6 + 6 \<le> length s" "length v = 6"
  shows "body b (put_body b v s) = v"
proof -
  have "drop (b * 6) (take (b * 6) s @ v @ drop (b * 6 + 6) s) = v @ drop (b * 6 + 6) s"
    using assms by simp
  then show ?thesis using assms(2) by (simp add: body_def put_body_def)
qed

lemma put_body_nth_other:
  assumes b6: "b * 6 + 6 \<le> length s" and v: "length v = 6"
    and n: "n < b * 6 \<or> b * 6 + 6 \<le> n"
  shows "put_body b v s ! n = s ! n"
proof (cases "n < b * 6")
  case True
  then show ?thesis using b6 by (simp add: put_body_def nth_append)
next
  case False
  then have ge: "b * 6 + 6 \<le> n" using n by simp
  define m where "m = n - (b * 6 + 6)"
  have n_eq: "n = b * 6 + (6 + m)" using ge by (simp add: m_def)
  have "(take (b * 6) s @ v @ drop (b * 6 + 6) s) ! (b * 6 + (6 + m))
        = (v @ drop (b * 6 + 6) s) ! (6 + m)"
    using b6 by (simp only: nth_append length_take min_def) simp
  also have "\<dots> = drop (b * 6 + 6) s ! m"
    using v by (simp add: nth_append)
  also have "\<dots> = s ! (b * 6 + (6 + m))"
    using b6 by (simp add: add.assoc)
  finally show ?thesis by (simp add: put_body_def n_eq)
qed

lemma body_put_body_other:
  assumes b6: "b * 6 + 6 \<le> length s" and v: "length v = 6" and jb: "j \<noteq> b"
  shows "body j (put_body b v s) = body j s"
proof (rule nth_equalityI)
  have len: "length (put_body b v s) = length s"
    using b6 v by (rule length_put_body)
  show l: "length (body j (put_body b v s)) = length (body j s)"
    by (simp add: body_def len)
  fix i assume "i < length (body j (put_body b v s))"
  then have i: "i < 6" "j * 6 + i < length s"
    using len by (auto simp: body_def)
  have out: "j * 6 + i < b * 6 \<or> b * 6 + 6 \<le> j * 6 + i"
    using jb i(1) by arith
  have "put_body b v s ! (j * 6 + i) = s ! (j * 6 + i)"
    using put_body_nth_other[OF b6 v out] .
  then show "body j (put_body b v s) ! i = body j s ! i"
    using i len by (simp add: body_def)
qed

lemma fold_set_position:
  "j \<le> k \<Longrightarrow>
   fold (\<lambda>i s. set_position i [0, 0, 1.5] s) [0..<j] (Zero (k * 6)) =
     concat (replicate j [0, 0, 1.5, 0, 0, 0]) @ Zero ((k - j) * 6)"
proof (induction j)
  case 0
  then show ?case by simp
next
  case (Suc j)
  have len: "length (concat (replicate j [0, 0, 1.5, 0, 0, 0::real])) = j * 6"
    by (induction j) auto
  have z: "Zero ((k - j) * 6) = [0,0,0,0,0,0] @ Zero ((k - Suc j) * 6)"
  proof -
    have "(k - j) * 6 = Suc (Suc (Suc (Suc (Suc (Suc ((k - Suc j) * 6))))))"
      using Suc.prems by arith
    then show ?thesis by (simp add: Zero_def)
  qed
  have c: "concat (replicate (Suc j) x) = concat (replicate j x) @ x" for x :: "real list"
    by (induction j) auto
  show ?case using Suc len
    by (simp add: set_position_def z c del: replicate_Suc)
qed

lemma default_state_blocks: "default_state k = concat (replicate k [0, 0, 1.5, 0, 0, 0])"
  using fold_set_position[of k k] by (simp add: default_state_def Zero_def)

lemma length_default_state: "length (default_state k) = k * 6"
  unfolding default_state_blocks by (induction k) auto

lemma concat_replicate_nth:
  "length xs = n \<Longrightarrow> m < k \<Longrightarrow> i < n \<Longrightarrow> concat (replicate k xs) ! (m * n + i) = xs ! i"
proof (induction m arbitrary: k)
  case 0
  then obtain k' where "k = Suc k'" by (cases k) auto
  then show ?case using 0 by (simp add: nth_append)
next
  case (Suc m)
  then obtain k' where k: "k = Suc k'" by (cases k) auto
  then have "m < k'" using Suc.prems by simp
  from Suc.IH[OF Suc.prems(1) this Suc.prems(3)] show ?case
    unfolding k using Suc.prems(1) by (simp add: nth_append add.assoc)
qed

lemma body_default_state:
  assumes "m < k"
  shows "body m (default_state k) = [0, 0, 1.5, 0, 0, 0]"
proof (rule nth_equalityI)
  have m6: "m * 6 + 6 \<le> length (default_state k)"
    using assms by (simp add: length_default_state)
  then show "length (body m (default_state k)) = length [0, 0, 1.5, 0, 0, 0::real]"
    by (simp add: body_def)
  fix i assume "i < length (body m (default_state k))"
  then have i: "i < 6" using m6 by (simp add: body_def)
  have "concat (replicate k [0, 0, 1.5, 0, 0, 0::real]) ! (m * 6 + i) = [0, 0, 1.5, 0, 0, 0] ! i"
    using assms i by (intro concat_replicate_nth) simp_all
  then show "body m (default_state k) ! i = [0, 0, 1.5, 0, 0, 0] ! i"
    using i m6 by (simp add: body_def default_state_blocks)
qed

section \<open>The injection loop\<close>

lemma inject_Inr_from:
  "inject b cs i ms = Inr js \<Longrightarrow>
     js = map (\<lambda>n. if i \<le> n then put_body b (cs ! n) (ms ! n) else ms ! n) [0..<length ms] \<and>
     (\<forall>n. i \<le> n \<and> n < length ms \<longrightarrow>
        n < length cs \<and> length (cs ! n) = 6 \<and> b * 6 + 6 \<le> length (ms ! n))"
proof (induction b cs i ms arbitrary: js rule: inject.induct)
  case (1 b cs i ms)
  show ?case
  proof (cases "i < length ms")
    case False
    then have "js = ms" using "1.prems" by (subst (asm) inject.simps) simp
    moreover have "map (\<lambda>n. if i \<le> n then put_body b (cs ! n) (ms ! n) else ms ! n)
                     [0..<length ms] = map (\<lambda>n. ms ! n) [0..<length ms]"
      using False by (intro map_cong) auto
    ultimately show ?thesis using False by (simp add: map_nth)
  next
    case True
    let ?s = "put_body b (cs ! i) (ms ! i)"
    have ci: "i < length cs"
      using "1.prems" True by (subst (asm) inject.simps) (simp split: if_splits)
    have nle: "\<not> length cs \<le> i" using ci by simp
    obtain s' where sb: "set_body b (cs ! i) (ms ! i) = Inr s'"
      and rest: "inject b cs (Suc i) (ms[i := s']) = Inr js"
      using "1.prems" True ci
      by (subst (asm) inject.simps) (simp split: sum.splits)
    have s': "s' = ?s" and six: "length (cs ! i) = 6" and big: "b * 6 + 6 \<le> length (ms ! i)"
      using sb by (simp_all add: set_body_Inr)
    note ih = "1.IH"[OF True nle sb rest]
    have eq: "map (\<lambda>n. if Suc i \<le> n then put_body b (cs ! n) (ms[i := s'] ! n)
                          else ms[i := s'] ! n) [0..<length (ms[i := s'])]
               = map (\<lambda>n. if i \<le> n then put_body b (cs ! n) (ms ! n) else ms ! n)
                   [0..<length ms]"
    proof (intro map_cong)
      fix n assume "n \<in> set [0..<length ms]"
      then show "(if Suc i \<le> n then put_body b (cs ! n) (ms[i := s'] ! n) else ms[i := s'] ! n)
                 = (if i \<le> n then put_body b (cs ! n) (ms ! n) else ms ! n)"
        using True s' by (cases "n = i") (auto simp: nth_list_update)
    qed simp
    have facts: "n < length cs \<and> length (cs ! n) = 6 \<and> b * 6 + 6 \<le> length (ms ! n)"
      if "i \<le> n" "n < length ms" for n
    proof (cases "n = i")
      case True
      then show ?thesis using ci six big by simp
    next
      case False
      then have "Suc i \<le> n" using that by simp
      then show ?thesis using ih that False by (auto simp: nth_list_update)
    qed
    show ?thesis using ih eq facts by simp
  qed
qed

lemma inject_Inr:
  assumes "inject b cs 0 ms = Inr js"
  shows "js = map (\<lambda>n. put_body b (cs ! n) (ms ! n)) [0..<length ms]"
    and "length ms \<le> length cs"
    and "\<And>n. n < length ms \<Longrightarrow> length (cs ! n) = 6 \<and> b * 6 + 6 \<le> length (ms ! n)"
proof -
  note r = inject_Inr_from[OF assms]
  show "js = map (\<lambda>n. put_body b (cs ! n) (ms ! n)) [0..<length ms]"
    using r by simp
  show "length ms \<le> length cs"
  proof (cases ms)
    case Nil then show ?thesis by simp
  next
    case (Cons a list)
    then have "length ms - 1 < length cs" using r by simp
    then show ?thesis by simp
  qed
  show "\<And>n. n < length ms \<Longrightarrow> length (cs ! n) = 6 \<and> b * 6 + 6 \<le> length (ms ! n)"
    using r by simp
qed


section \<open>The loop of the stages\<close>

lemma and_then_NoneD:
  "and_then r next_statement = (h', None) \<Longrightarrow> \<exists>h. r = (h, None) \<and> next_statement h = (h', None)"
  by (cases r; cases "snd r") (auto simp: and_then_def)

lemma mutators_replay:
  assumes "fst h = replay ops (snd h) f0"
  shows "fst (fst (SamplingBlocks ops blocks h)) = replay ops (snd (fst (SamplingBlocks ops blocks h))) f0"
    and "fst (fst (Samples ops samples h)) = replay ops (snd (fst (Samples ops samples h))) f0"
    and "fst (fst (FilterStep ops depth dt input h)) =
           replay ops (snd (fst (FilterStep ops depth dt input h))) f0"
    and "fst (fst (Resample ops count h)) = replay ops (snd (fst (Resample ops count h))) f0"
    and "fst (snd (ReadSamples ops h)) = replay ops (snd (snd (ReadSamples ops h))) f0"
    and "fst (snd (ReadMean ops h)) = replay ops (snd (snd (ReadMean ops h))) f0"
  using assms
  by (simp_all add: SamplingBlocks_def Samples_def FilterStep_def Resample_def ReadSamples_def
        ReadMean_def call_on_def replay_append)

lemma mutators_clean:
  assumes "fst h = replay ops (snd h) f0" "clean ops (snd h) f0"
  shows "SamplingBlocks ops blocks h = (h', None) \<Longrightarrow> clean ops (snd h') f0"
    and "Samples ops samples h = (h', None) \<Longrightarrow> clean ops (snd h') f0"
    and "FilterStep ops depth dt input h = (h', None) \<Longrightarrow> clean ops (snd h') f0"
    and "Resample ops count h = (h', None) \<Longrightarrow> clean ops (snd h') f0"
    and "clean ops (snd (snd (ReadSamples ops h))) f0"
    and "clean ops (snd (snd (ReadMean ops h))) f0"
  using assms
  by (auto simp: SamplingBlocks_def Samples_def FilterStep_def Resample_def ReadSamples_def
        ReadMean_def call_on_def clean_append)

lemma and_then_replay:
  assumes "fst (fst r) = replay ops (snd (fst r)) f0"
    and "\<And>h. fst h = replay ops (snd h) f0 \<Longrightarrow>
           fst (fst (next_statement h)) = replay ops (snd (fst (next_statement h))) f0"
  shows "fst (fst (and_then r next_statement)) =
           replay ops (snd (fst (and_then r next_statement))) f0"
  using assms by (cases "snd r") (simp_all add: and_then_def)

lemma stages_replay:
  "fst h = replay ops (snd h) f0 \<Longrightarrow>
   fst (fst (stages ops depth k cs b ms h)) =
     replay ops (snd (fst (stages ops depth k cs b ms h))) f0"
proof (induction ops depth k cs b ms h rule: stages.induct)
  case (1 ops depth k cs b ms h)
  show ?case
  proof (cases "b < k")
    case False
    then show ?thesis using "1.prems" by (subst (1 2) stages.simps) simp
  next
    case True
    show ?thesis
    proof (cases "inject b cs 0 ms")
      case (Inl e)
      then show ?thesis using True "1.prems" by (subst (1 2) stages.simps) simp
    next
      case (Inr js)
      define r where "r = and_then (and_then (Samples ops js h)
                         (FilterStep ops depth 0 (Zero (k * 6)))) (Resample ops (length js))"
      have r: "fst (fst r) = replay ops (snd (fst r)) f0"
        unfolding r_def
        by (intro and_then_replay mutators_replay "1.prems")
      show ?thesis
      proof (cases "snd r")
        case (Some e)
        then show ?thesis using True Inr r
          by (subst (1 2) stages.simps) (simp add: r_def[symmetric])
      next
        case None
        have "fst (snd (ReadSamples ops (fst r))) = replay ops (snd (snd (ReadSamples ops (fst r)))) f0"
          using r by (rule mutators_replay)
        from "1.IH"[OF True Inr r_def None this]
        show ?thesis using True Inr None
          by (subst (1 2) stages.simps) (simp add: r_def[symmetric])
      qed
    qed
  qed
qed

lemma stages_step:
  assumes "b < k" "stages ops depth k cs b ms h = (h', None)"
  shows "\<exists>js f1 f2 f3.
     inject b cs 0 ms = Inr js \<and>
     set_samples ops js (fst h) = (f1, None) \<and>
     filter_step ops depth 0 (Zero (k * 6)) f1 = (f2, None) \<and>
     resample ops (length js) f2 = (f3, None) \<and>
     stages ops depth k cs (Suc b) (get_samples ops f3)
       (f3, snd h @ stage_calls depth k js (get_samples ops f3)) = (h', None)"
proof (cases "inject b cs 0 ms")
  case (Inl e)
  then show ?thesis using assms by (subst (asm) stages.simps) simp
next
  case (Inr js)
  define r where "r = and_then (and_then (Samples ops js h)
                     (FilterStep ops depth 0 (Zero (k * 6)))) (Resample ops (length js))"
  have unfold: "stages ops depth k cs b ms h =
      (case snd r of Some e \<Rightarrow> r
       | None \<Rightarrow> stages ops depth k cs (Suc b) (fst (ReadSamples ops (fst r)))
                   (snd (ReadSamples ops (fst r))))"
    using assms(1) Inr unfolding r_def by (subst stages.simps) (simp add: Let_def)
  have none: "snd r = None"
    using assms(2) unfolding unfold by (cases "snd r") (auto simp: prod_eq_iff)
  obtain h3 where r3: "r = (h3, None)" using none by (cases r) simp
  from and_then_NoneD[OF r3[unfolded r_def]]
  obtain h2 where s2: "and_then (Samples ops js h) (FilterStep ops depth 0 (Zero (k * 6))) = (h2, None)"
    and s3: "Resample ops (length js) h2 = (h3, None)"
    by blast
  from and_then_NoneD[OF s2]
  obtain h1 where s1: "Samples ops js h = (h1, None)"
    and s2': "FilterStep ops depth 0 (Zero (k * 6)) h1 = (h2, None)"
    by blast
  have 1: "set_samples ops js (fst h) = (fst h1, None)" "snd h1 = snd h @ [SamplesCall js]"
    using s1 by (simp_all add: Samples_def call_on_None)
  have 2: "filter_step ops depth 0 (Zero (k * 6)) (fst h1) = (fst h2, None)"
    "snd h2 = snd h1 @ [FilterCall depth 0 (Zero (k * 6))]"
    using s2' by (simp_all add: FilterStep_def call_on_None)
  have 3: "resample ops (length js) (fst h2) = (fst h3, None)"
    "snd h3 = snd h2 @ [ResampleCall (length js)]"
    using s3 by (simp_all add: Resample_def call_on_None)
  have rest: "stages ops depth k cs (Suc b) (get_samples ops (fst h3))
       (fst h3, snd h @ stage_calls depth k js (get_samples ops (fst h3))) = (h', None)"
    using assms(2) unfolding unfold r3
    by (simp add: ReadSamples_def stage_calls_def 1 2 3)
  show ?thesis using Inr 1 2 3 rest by blast
qed

lemma stages_clean:
  "stages ops depth k cs b ms h = (h', None) \<Longrightarrow> fst h = replay ops (snd h) f0 \<Longrightarrow>
   clean ops (snd h) f0 \<Longrightarrow> n = k - b \<Longrightarrow> clean ops (snd h') f0"
proof (induction n arbitrary: b ms h)
  case 0
  then have "\<not> b < k" by simp
  then have "stages ops depth k cs b ms h = (h, None)"
    by (subst stages.simps) simp
  then show ?case using 0 by simp
next
  case (Suc n)
  then have bk: "b < k" by simp
  from stages_step[OF bk Suc.prems(1)] obtain js f1 f2 f3 where
    s1: "set_samples ops js (fst h) = (f1, None)"
    and s2: "filter_step ops depth 0 (Zero (k * 6)) f1 = (f2, None)"
    and s3: "resample ops (length js) f2 = (f3, None)"
    and rest: "stages ops depth k cs (Suc b) (get_samples ops f3)
       (f3, snd h @ stage_calls depth k js (get_samples ops f3)) = (h', None)"
    by blast
  have rp: "replay ops (stage_calls depth k js (get_samples ops f3)) (fst h) = f3"
    by (simp add: stage_calls_def s1 s2 s3)
  have cl: "clean ops (stage_calls depth k js (get_samples ops f3)) (fst h)"
    by (simp add: stage_calls_def s1 s2 s3)
  show ?case
  proof (rule Suc.IH[OF rest])
    show "fst (f3, snd h @ stage_calls depth k js (get_samples ops f3)) =
          replay ops (snd (f3, snd h @ stage_calls depth k js (get_samples ops f3))) f0"
      using rp Suc.prems(2) by (simp add: replay_append)
    show "clean ops (snd (f3, snd h @ stage_calls depth k js (get_samples ops f3))) f0"
      using cl Suc.prems(2,3) by (simp add: clean_append)
    show "n = k - Suc b" using Suc.prems(4) by simp
  qed
qed

lemma map_upt_Suc_shift: "map g [0..<Suc n] = g 0 # map (\<lambda>j. g (Suc j)) [0..<n]"
  by (simp only: upt_conv_Cons zero_less_Suc list.map map_Suc_upt[symmetric] map_map o_def)

lemma stages_run:
  assumes c: "selects_at_rest ops"
  shows "stages ops depth k cs b ms h = (h', None) \<Longrightarrow> (b < k \<longrightarrow> length ms = length cs) \<Longrightarrow>
    n = k - b \<Longrightarrow>
    \<exists>sets outs.
      snd h' = snd h @ concat (map (\<lambda>j. stage_calls depth k (sets ! j) (outs ! j)) [0..<n]) \<and>
      length sets = n \<and> length outs = n \<and>
      (\<forall>j<n. sets ! j = map (\<lambda>i. put_body (b + j) (cs ! i) ((ms # outs) ! j ! i))
                           [0..<length cs] \<and>
             length ((ms # outs) ! j) = length cs \<and>
             (\<forall>i<length cs. length (cs ! i) = 6 \<and>
                              (b + j) * 6 + 6 \<le> length ((ms # outs) ! j ! i)) \<and>
             (cs \<noteq> [] \<longrightarrow> length (outs ! j) = length cs \<and> set (outs ! j) \<subseteq> set (sets ! j)))"
proof (induction n arbitrary: b ms h)
  case 0
  then have "\<not> b < k" by simp
  then have "stages ops depth k cs b ms h = (h, None)"
    by (subst stages.simps) simp
  then show ?case using 0 by simp
next
  case (Suc n)
  then have bk: "b < k" by simp
  then have lms: "length ms = length cs" using Suc.prems(2) by simp
  from stages_step[OF bk Suc.prems(1)] obtain js f1 f2 f3 where
    inj: "inject b cs 0 ms = Inr js"
    and s1: "set_samples ops js (fst h) = (f1, None)"
    and s2: "filter_step ops depth 0 (Zero (k * 6)) f1 = (f2, None)"
    and s3: "resample ops (length js) f2 = (f3, None)"
    and rest: "stages ops depth k cs (Suc b) (get_samples ops f3)
       (f3, snd h @ stage_calls depth k js (get_samples ops f3)) = (h', None)"
    by blast
  define out where "out = get_samples ops f3"
  have js: "js = map (\<lambda>i. put_body b (cs ! i) (ms ! i)) [0..<length cs]"
    using inject_Inr(1)[OF inj] lms by simp
  have facts: "\<forall>i<length cs. length (cs ! i) = 6 \<and> b * 6 + 6 \<le> length (ms ! i)"
    using inject_Inr(3)[OF inj] lms by simp
  have ljs: "length js = length cs" using js by simp
  have sel: "cs \<noteq> [] \<longrightarrow> length out = length cs \<and> set out \<subseteq> set js"
  proof
    assume "cs \<noteq> []"
    then have "js \<noteq> []" using ljs by auto
    with c s1 s2 s3 show "length out = length cs \<and> set out \<subseteq> set js"
      unfolding selects_at_rest_def out_def using ljs by metis
  qed
  have next_len: "Suc b < k \<longrightarrow> length out = length cs"
  proof
    assume sk: "Suc b < k"
    show "length out = length cs"
    proof (cases "cs = []")
      case False
      then show ?thesis using sel by simp
    next
      case True
      from stages_step[OF sk rest] obtain js' where
        "inject (Suc b) cs 0 (get_samples ops f3) = Inr js'" by blast
      from inject_Inr(2)[OF this] show ?thesis using True by (simp add: out_def)
    qed
  qed
  have p3: "n = k - Suc b" using Suc.prems(3) by simp
  from Suc.IH[OF rest[folded out_def] next_len p3]
  obtain sets outs where
    log: "snd h' = snd (f3, snd h @ stage_calls depth k js out) @
            concat (map (\<lambda>j. stage_calls depth k (sets ! j) (outs ! j)) [0..<n])"
    and len: "length sets = n" "length outs = n"
    and props: "\<forall>j<n. sets ! j = map (\<lambda>i. put_body (Suc b + j) (cs ! i) ((out # outs) ! j ! i))
                           [0..<length cs] \<and>
             length ((out # outs) ! j) = length cs \<and>
             (\<forall>i<length cs. length (cs ! i) = 6 \<and>
                              (Suc b + j) * 6 + 6 \<le> length ((out # outs) ! j ! i)) \<and>
             (cs \<noteq> [] \<longrightarrow> length (outs ! j) = length cs \<and> set (outs ! j) \<subseteq> set (sets ! j))"
    by blast
  have 1: "snd h' = snd h @
        concat (map (\<lambda>j. stage_calls depth k ((js # sets) ! j) ((out # outs) ! j)) [0..<Suc n])"
    unfolding log map_upt_Suc_shift by simp
  have 2: "(js # sets) ! j = map (\<lambda>i. put_body (b + j) (cs ! i) ((ms # out # outs) ! j ! i))
                           [0..<length cs] \<and>
             length ((ms # out # outs) ! j) = length cs \<and>
             (\<forall>i<length cs. length (cs ! i) = 6 \<and>
                              (b + j) * 6 + 6 \<le> length ((ms # out # outs) ! j ! i)) \<and>
             (cs \<noteq> [] \<longrightarrow> length ((out # outs) ! j) = length cs \<and>
                           set ((out # outs) ! j) \<subseteq> set ((js # sets) ! j))" if "j < Suc n" for j
  proof (cases j)
    case 0
    then show ?thesis using lms js facts sel by simp
  next
    case (Suc j')
    then have "j' < n" using that by simp
    note p = props[rule_format, OF this, unfolded add_Suc]
    show ?thesis unfolding Suc nth_Cons_Suc add_Suc_right by (rule p)
  qed
  have l: "length (js # sets) = Suc n" "length (out # outs) = Suc n"
    using len by simp_all
  show ?case
    using 1 l 2 by blast
qed

section \<open>The whole of Initialize\<close>

lemma dependent_sampling_blocks_eq: "dependent_sampling_blocks k = [[0..<k * 6]]"
  by (simp add: dependent_sampling_blocks_def)

lemma finish_NoneD:
  assumes "finish ops cfg h = (h', None)"
  shows "sampling_blocks cfg \<noteq> []"
    and "\<exists>f1. resample ops (nat (evaluation_count cfg mod 2 ^ 64) div length (sampling_blocks cfg))
                 (fst h) = (f1, None) \<and>
               set_sampling_blocks ops (sampling_blocks cfg) f1 = (fst h', None)"
    and "snd h' = snd h @
           [ResampleCall (nat (evaluation_count cfg mod 2 ^ 64) div length (sampling_blocks cfg)),
            SamplingBlocksCall (sampling_blocks cfg)]"
proof -
  show sb: "sampling_blocks cfg \<noteq> []"
    using assms by (auto simp: finish_def operating_size_def split: if_splits)
  let ?M = "nat (evaluation_count cfg mod 2 ^ 64) div length (sampling_blocks cfg)"
  have "and_then (Resample ops ?M h) (SamplingBlocks ops (sampling_blocks cfg)) = (h', None)"
    using assms sb by (simp add: finish_def operating_size_def)
  from and_then_NoneD[OF this] obtain h1 where
    r: "Resample ops ?M h = (h1, None)" and s: "SamplingBlocks ops (sampling_blocks cfg) h1 = (h', None)"
    by blast
  have 1: "resample ops ?M (fst h) = (fst h1, None)" "snd h1 = snd h @ [ResampleCall ?M]"
    using r by (simp_all add: Resample_def call_on_None)
  have 2: "set_sampling_blocks ops (sampling_blocks cfg) (fst h1) = (fst h', None)"
    "snd h' = snd h1 @ [SamplingBlocksCall (sampling_blocks cfg)]"
    using s by (simp_all add: SamplingBlocks_def call_on_None)
  show "\<exists>f1. resample ops ?M (fst h) = (f1, None) \<and>
               set_sampling_blocks ops (sampling_blocks cfg) f1 = (fst h', None)"
    using 1 2 by blast
  show "snd h' = snd h @ [ResampleCall ?M, SamplingBlocksCall (sampling_blocks cfg)]"
    using 1 2 by simp
qed

lemma finish_replay:
  "fst h = replay ops (snd h) f0 \<Longrightarrow>
   fst (fst (finish ops cfg h)) = replay ops (snd (fst (finish ops cfg h))) f0"
  unfolding finish_def
  by (cases "operating_size cfg")
     (auto intro!: and_then_replay mutators_replay)

lemma seed_replay:
  "fst h = replay ops (snd h) f0 \<Longrightarrow>
   fst (fst (seed ops depth k cs partial h)) =
     replay ops (snd (fst (seed ops depth k cs partial h))) f0"
  unfolding seed_def
  by (cases partial) (auto intro!: and_then_replay mutators_replay stages_replay)

lemma Initialize_built:
  assumes "Ros2Eigen ops ros_image (downsampling_factor tr) = Inr depth"
    and "new_filter ops
           (constructor_args cfg (object_names tr)
              (scale_camera ops camera_matrix (downsampling_factor tr)) depth (length cs))
         = Inr f0"
  shows "Initialize ops cfg cs ros_image camera_matrix partial tr =
     (snd (and_then
             (and_then
                (SamplingBlocks ops (dependent_sampling_blocks (length (object_names tr))) (f0, []))
                (seed ops depth (length (object_names tr)) cs partial))
             (finish ops cfg)),
      tr\<lparr>filter_ptr := Some (fst (and_then
             (and_then
                (SamplingBlocks ops (dependent_sampling_blocks (length (object_names tr))) (f0, []))
                (seed ops depth (length (object_names tr)) cs partial))
             (finish ops cfg)))\<rparr>)"
  using assms by (simp add: Initialize_def Let_def)


lemma Initialize_NoneD:
  assumes "Initialize ops cfg cs ros_image camera_matrix partial tr = (None, tr')"
  shows "\<exists>depth f0 f1 h2 h3.
     Ros2Eigen ops ros_image (downsampling_factor tr) = Inr depth \<and>
     new_filter ops
       (constructor_args cfg (object_names tr)
          (scale_camera ops camera_matrix (downsampling_factor tr)) depth (length cs)) = Inr f0 \<and>
     set_sampling_blocks ops [[0..<length (object_names tr) * 6]] f0 = (f1, None) \<and>
     seed ops depth (length (object_names tr)) cs partial
       (f1, [SamplingBlocksCall [[0..<length (object_names tr) * 6]]]) = (h2, None) \<and>
     finish ops cfg h2 = (h3, None) \<and>
     tr' = tr\<lparr>filter_ptr := Some h3\<rparr>"
proof -
  obtain depth where d: "Ros2Eigen ops ros_image (downsampling_factor tr) = Inr depth"
    using assms by (cases "Ros2Eigen ops ros_image (downsampling_factor tr)")
      (simp_all add: Initialize_def Let_def)
  obtain f0 where f0: "new_filter ops
       (constructor_args cfg (object_names tr)
          (scale_camera ops camera_matrix (downsampling_factor tr)) depth (length cs)) = Inr f0"
    using assms d
    by (cases "new_filter ops
       (constructor_args cfg (object_names tr)
          (scale_camera ops camera_matrix (downsampling_factor tr)) depth (length cs))")
      (simp_all add: Initialize_def Let_def)
  let ?k = "length (object_names tr)"
  let ?r = "and_then
             (and_then (SamplingBlocks ops (dependent_sampling_blocks ?k) (f0, []))
                (seed ops depth ?k cs partial))
             (finish ops cfg)"
  have r: "?r = (fst ?r, None)" and tr': "tr' = tr\<lparr>filter_ptr := Some (fst ?r)\<rparr>"
    using assms unfolding Initialize_built[OF d f0] by (auto simp: prod_eq_iff)
  from and_then_NoneD[OF r] obtain h2 where
    a: "and_then (SamplingBlocks ops (dependent_sampling_blocks ?k) (f0, []))
          (seed ops depth ?k cs partial) = (h2, None)"
    and fin: "finish ops cfg h2 = (fst ?r, None)" by blast
  from and_then_NoneD[OF a] obtain h1 where
    sbk: "SamplingBlocks ops (dependent_sampling_blocks ?k) (f0, []) = (h1, None)"
    and sd: "seed ops depth ?k cs partial h1 = (h2, None)" by blast
  have h1: "set_sampling_blocks ops [[0..<?k * 6]] f0 = (fst h1, None)"
    "snd h1 = [SamplingBlocksCall [[0..<?k * 6]]]"
    using sbk by (simp_all add: SamplingBlocks_def call_on_None dependent_sampling_blocks_eq)
  have "h1 = (fst h1, [SamplingBlocksCall [[0..<?k * 6]]])"
    using h1(2) by (simp add: prod_eq_iff)
  then have sd': "seed ops depth ?k cs partial (fst h1, [SamplingBlocksCall [[0..<?k * 6]]]) = (h2, None)"
    using sd by simp
  show ?thesis using d f0 h1(1) sd' fin tr' by blast
qed

lemma seed_clean:
  assumes "seed ops depth k cs partial h = (h', None)" "fst h = replay ops (snd h) f0"
    "clean ops (snd h) f0"
  shows "clean ops (snd h') f0"
proof (cases partial)
  case True
  then show ?thesis
    using assms stages_clean[OF _ assms(2,3) refl] by (simp add: seed_def)
next
  case False
  then have "and_then (Samples ops cs h) (FilterStep ops depth 0 (Zero (k * 6))) = (h', None)"
    using assms(1) by (simp add: seed_def)
  from and_then_NoneD[OF this] obtain h1 where
    a: "Samples ops cs h = (h1, None)" and b: "FilterStep ops depth 0 (Zero (k * 6)) h1 = (h', None)"
    by blast
  have r1: "fst h1 = replay ops (snd h1) f0"
    using mutators_replay(2)[OF assms(2), of cs] a by simp
  have c1: "clean ops (snd h1) f0"
    using mutators_clean(2)[OF assms(2,3) a] .
  show ?thesis using mutators_clean(3)[OF r1 c1 b] .
qed

lemma finish_clean:
  assumes "finish ops cfg h = (h', None)" "fst h = replay ops (snd h) f0" "clean ops (snd h) f0"
  shows "clean ops (snd h') f0"
proof -
  from finish_NoneD[OF assms(1)] obtain f1 where
    a: "resample ops (nat (evaluation_count cfg mod 2 ^ 64) div length (sampling_blocks cfg))
          (fst h) = (f1, None)"
    and b: "set_sampling_blocks ops (sampling_blocks cfg) f1 = (fst h', None)"
    and l: "snd h' = snd h @
           [ResampleCall (nat (evaluation_count cfg mod 2 ^ 64) div length (sampling_blocks cfg)),
            SamplingBlocksCall (sampling_blocks cfg)]"
    by blast
  show ?thesis
    unfolding l using assms(2,3) a b by (simp add: clean_append)
qed

lemma Initialize_completed:
  assumes "Initialize ops cfg cs ros_image camera_matrix partial tr = (None, tr')"
  shows "\<exists>depth f0 f1 h2 g calls.
     Ros2Eigen ops ros_image (downsampling_factor tr) = Inr depth \<and>
     new_filter ops
       (constructor_args cfg (object_names tr)
          (scale_camera ops camera_matrix (downsampling_factor tr)) depth (length cs)) = Inr f0 \<and>
     set_sampling_blocks ops [[0..<length (object_names tr) * 6]] f0 = (f1, None) \<and>
     seed ops depth (length (object_names tr)) cs partial
       (f1, [SamplingBlocksCall [[0..<length (object_names tr) * 6]]]) = (h2, None) \<and>
     sampling_blocks cfg \<noteq> [] \<and>
     calls = snd h2 @
       [ResampleCall (nat (evaluation_count cfg mod 2 ^ 64) div length (sampling_blocks cfg)),
        SamplingBlocksCall (sampling_blocks cfg)] \<and>
     tr' = tr\<lparr>filter_ptr := Some (g, calls)\<rparr> \<and>
     g = replay ops calls f0 \<and> clean ops calls f0"
proof -
  from Initialize_NoneD[OF assms] obtain depth f0 f1 h2 h3 where
    d: "Ros2Eigen ops ros_image (downsampling_factor tr) = Inr depth"
    and f0: "new_filter ops
       (constructor_args cfg (object_names tr)
          (scale_camera ops camera_matrix (downsampling_factor tr)) depth (length cs)) = Inr f0"
    and f1: "set_sampling_blocks ops [[0..<length (object_names tr) * 6]] f0 = (f1, None)"
    and sd: "seed ops depth (length (object_names tr)) cs partial
       (f1, [SamplingBlocksCall [[0..<length (object_names tr) * 6]]]) = (h2, None)"
    and fin: "finish ops cfg h2 = (h3, None)"
    and tr': "tr' = tr\<lparr>filter_ptr := Some h3\<rparr>"
    by blast
  let ?h1 = "(f1, [SamplingBlocksCall [[0..<length (object_names tr) * 6]]])"
  have r1: "fst ?h1 = replay ops (snd ?h1) f0" using f1 by simp
  have c1: "clean ops (snd ?h1) f0" using f1 by simp
  have r2: "fst h2 = replay ops (snd h2) f0"
    using seed_replay[OF r1, of depth "length (object_names tr)" cs partial] sd by simp
  have c2: "clean ops (snd h2) f0" using seed_clean[OF sd r1 c1] .
  have r3: "fst h3 = replay ops (snd h3) f0"
    using finish_replay[OF r2, of cfg] fin by simp
  have c3: "clean ops (snd h3) f0" using finish_clean[OF fin r2 c2] .
  note fd = finish_NoneD[OF fin]
  have "tr' = tr\<lparr>filter_ptr := Some (fst h3, snd h3)\<rparr>" using tr' by simp
  then show ?thesis using d f0 f1 sd fd(1,3) r3 c3 by blast
qed

lemma Initialize_partial:
  assumes c: "selects_at_rest ops"
    and ok: "Initialize ops cfg cs ros_image camera_matrix True tr = (None, tr')"
  shows "\<exists>depth f0 g sets outs.
     Ros2Eigen ops ros_image (downsampling_factor tr) = Inr depth \<and>
     new_filter ops
       (constructor_args cfg (object_names tr)
          (scale_camera ops camera_matrix (downsampling_factor tr)) depth (length cs)) = Inr f0 \<and>
     tr' = tr\<lparr>filter_ptr := Some (g,
       [SamplingBlocksCall [[0..<length (object_names tr) * 6]]] @
       concat (map (\<lambda>j. stage_calls depth (length (object_names tr)) (sets ! j) (outs ! j))
                 [0..<length (object_names tr)]) @
       [ResampleCall (nat (evaluation_count cfg mod 2 ^ 64) div length (sampling_blocks cfg)),
        SamplingBlocksCall (sampling_blocks cfg)])\<rparr> \<and>
     g = replay ops
       ([SamplingBlocksCall [[0..<length (object_names tr) * 6]]] @
        concat (map (\<lambda>j. stage_calls depth (length (object_names tr)) (sets ! j) (outs ! j))
                  [0..<length (object_names tr)]) @
        [ResampleCall (nat (evaluation_count cfg mod 2 ^ 64) div length (sampling_blocks cfg)),
         SamplingBlocksCall (sampling_blocks cfg)]) f0 \<and>
     clean ops
       ([SamplingBlocksCall [[0..<length (object_names tr) * 6]]] @
        concat (map (\<lambda>j. stage_calls depth (length (object_names tr)) (sets ! j) (outs ! j))
                  [0..<length (object_names tr)]) @
        [ResampleCall (nat (evaluation_count cfg mod 2 ^ 64) div length (sampling_blocks cfg)),
         SamplingBlocksCall (sampling_blocks cfg)]) f0 \<and>
     length sets = length (object_names tr) \<and> length outs = length (object_names tr) \<and>
     (\<forall>j<length (object_names tr).
        sets ! j = map (\<lambda>i. put_body j (cs ! i)
                     ((replicate (length cs) (default_state (length (object_names tr))) # outs) ! j ! i))
                     [0..<length cs] \<and>
        length ((replicate (length cs) (default_state (length (object_names tr))) # outs) ! j)
          = length cs \<and>
        (\<forall>i<length cs. length (cs ! i) = 6 \<and>
           j * 6 + 6 \<le> length ((replicate (length cs) (default_state (length (object_names tr)))
                                    # outs) ! j ! i)) \<and>
        (cs \<noteq> [] \<longrightarrow> length (outs ! j) = length cs \<and> set (outs ! j) \<subseteq> set (sets ! j)))"
proof -
  define k where "k = length (object_names tr)"
  define ms where "ms = replicate (length cs) (default_state k)"
  define M where "M = nat (evaluation_count cfg mod 2 ^ 64) div length (sampling_blocks cfg)"
  from Initialize_completed[OF ok] obtain depth f0 f1 h2 g calls where
    d: "Ros2Eigen ops ros_image (downsampling_factor tr) = Inr depth"
    and f0: "new_filter ops
       (constructor_args cfg (object_names tr)
          (scale_camera ops camera_matrix (downsampling_factor tr)) depth (length cs)) = Inr f0"
    and sd: "seed ops depth k cs True (f1, [SamplingBlocksCall [[0..<k * 6]]]) = (h2, None)"
    and calls: "calls = snd h2 @ [ResampleCall M, SamplingBlocksCall (sampling_blocks cfg)]"
    and tr': "tr' = tr\<lparr>filter_ptr := Some (g, calls)\<rparr>"
    and g: "g = replay ops calls f0" and cl: "clean ops calls f0"
    unfolding k_def M_def by blast
  have st: "stages ops depth k cs 0 ms (f1, [SamplingBlocksCall [[0..<k * 6]]]) = (h2, None)"
    using sd by (simp add: seed_def ms_def)
  have l: "0 < k \<longrightarrow> length ms = length cs" by (simp add: ms_def)
  from stages_run[OF c st l refl]
  obtain sets outs where
    log: "snd h2 = snd (f1, [SamplingBlocksCall [[0..<k * 6]]]) @
            concat (map (\<lambda>j. stage_calls depth k (sets ! j) (outs ! j)) [0..<k - 0])"
    and len: "length sets = k - 0" "length outs = k - 0"
    and props: "\<forall>j<k - 0. sets ! j = map (\<lambda>i. put_body (0 + j) (cs ! i) ((ms # outs) ! j ! i))
                           [0..<length cs] \<and>
             length ((ms # outs) ! j) = length cs \<and>
             (\<forall>i<length cs. length (cs ! i) = 6 \<and>
                              (0 + j) * 6 + 6 \<le> length ((ms # outs) ! j ! i)) \<and>
             (cs \<noteq> [] \<longrightarrow> length (outs ! j) = length cs \<and> set (outs ! j) \<subseteq> set (sets ! j))"
    by blast
  have calls': "calls = [SamplingBlocksCall [[0..<k * 6]]] @
       concat (map (\<lambda>j. stage_calls depth k (sets ! j) (outs ! j)) [0..<k]) @
       [ResampleCall M, SamplingBlocksCall (sampling_blocks cfg)]"
    using calls log by simp
  note tr'' = tr'[unfolded calls'] and g' = g[unfolded calls'] and cl' = cl[unfolded calls']
  note len' = len[simplified] and props' = props[simplified]
  show ?thesis
    unfolding k_def[symmetric] ms_def[symmetric] M_def[symmetric]
    using d f0 tr'' g' cl' len' props' by blast
qed

lemma Filter_run:
  assumes "filter_ptr tr = Some (f, calls)"
    and "Ros2Eigen ops ros_image (downsampling_factor tr) = Inr depth"
    and "filter_step ops depth
           (case last_measurement_time tr of None \<Rightarrow> 0 | Some c \<Rightarrow> stamp ros_image - c)
           (Zero (length (object_names tr) * 6)) f = (f', r)"
  shows "Filter ops ros_image tr =
     (case r of
        None \<Rightarrow>
          (Inr (get_mean ops f'),
           tr\<lparr>last_measurement_time := Some (stamp ros_image),
              filter_ptr := Some (f', calls @
                [FilterCall depth
                   (case last_measurement_time tr of None \<Rightarrow> 0 | Some c \<Rightarrow> stamp ros_image - c)
                   (Zero (length (object_names tr) * 6)),
                 MeanRead (get_mean ops f'), MeanRead (get_mean ops f')])\<rparr>)
      | Some e \<Rightarrow>
          (Inl (Thrown e),
           tr\<lparr>last_measurement_time :=
                Some (case last_measurement_time tr of None \<Rightarrow> stamp ros_image | Some c \<Rightarrow> c),
              filter_ptr := Some (f', calls @
                [FilterCall depth
                   (case last_measurement_time tr of None \<Rightarrow> 0 | Some c \<Rightarrow> stamp ros_image - c)
                   (Zero (length (object_names tr) * 6))])\<rparr>))"
  using assms
  by (cases "last_measurement_time tr"; cases r)
     (simp_all add: Filter_def Let_def FilterStep_def call_on_def ReadMean_def)

lemma Initialize_full_run:
  assumes d: "Ros2Eigen ops ros_image (downsampling_factor tr) = Inr depth"
    and f0: "new_filter ops
           (constructor_args cfg (object_names tr)
              (scale_camera ops camera_matrix (downsampling_factor tr)) depth (length cs))
         = Inr f0"
    and f1: "set_sampling_blocks ops [[0..<length (object_names tr) * 6]] f0 = (f1, None)"
    and f2: "set_samples ops cs f1 = (f2, None)"
    and f3: "filter_step ops depth 0 (Zero (length (object_names tr) * 6)) f2 = (f3, None)"
    and sb: "sampling_blocks cfg \<noteq> []"
    and f4: "resample ops (nat (evaluation_count cfg mod 2 ^ 64) div length (sampling_blocks cfg)) f3
               = (f4, r4)"
    and f5: "set_sampling_blocks ops (sampling_blocks cfg) f4 = (f5, r5)"
  shows "Initialize ops cfg cs ros_image camera_matrix False tr =
     (case r4 of
        Some e \<Rightarrow>
          (Some (Thrown e),
           tr\<lparr>filter_ptr := Some (f4,
             [SamplingBlocksCall [[0..<length (object_names tr) * 6]],
              SamplesCall cs,
              FilterCall depth 0 (Zero (length (object_names tr) * 6)),
              ResampleCall (nat (evaluation_count cfg mod 2 ^ 64)
                              div length (sampling_blocks cfg))])\<rparr>)
      | None \<Rightarrow>
          (map_option Thrown r5,
           tr\<lparr>filter_ptr := Some (f5,
             [SamplingBlocksCall [[0..<length (object_names tr) * 6]],
              SamplesCall cs,
              FilterCall depth 0 (Zero (length (object_names tr) * 6)),
              ResampleCall (nat (evaluation_count cfg mod 2 ^ 64)
                              div length (sampling_blocks cfg)),
              SamplingBlocksCall (sampling_blocks cfg)])\<rparr>))"
  unfolding Initialize_built[OF d f0]
  using f1 f2 f3 sb f4 f5
  by (cases r4)
     (simp_all add: dependent_sampling_blocks_eq seed_def finish_def operating_size_def
        SamplingBlocks_def Samples_def FilterStep_def Resample_def call_on_def and_then_def)


lemma cyclic_length: "cyclic (length xs) xs = xs"
  by (cases "xs = []") (auto simp: cyclic_def intro!: nth_equalityI)

lemma reference_selects_at_rest: "selects_at_rest reference"
  unfolding selects_at_rest_def reference_def
  by (auto simp: cyclic_length split: if_splits)

lemma active_schedules_stages:
  "active_schedules cur
     (concat (map (\<lambda>j. stage_calls depth k (sets j) (outs j)) xs) @ rest)
   = replicate (length xs) cur @ active_schedules cur rest"
  by (induction xs) (simp_all add: stage_calls_def)

lemma sentinel_kept:
  assumes props: "\<forall>j<k.
        sets ! j = map (\<lambda>i. put_body j (cs ! i) ((ms # outs) ! j ! i)) [0..<length cs] \<and>
        length ((ms # outs) ! j) = length cs \<and>
        (\<forall>i<length cs. length (cs ! i) = 6 \<and> j * 6 + 6 \<le> length ((ms # outs) ! j ! i)) \<and>
        (cs \<noteq> [] \<longrightarrow> length (outs ! j) = length cs \<and> set (outs ! j) \<subseteq> set (sets ! j))"
    and ms: "\<forall>s\<in>set ms. \<forall>j<k. body j s = S"
  shows "b < k \<Longrightarrow> \<forall>s\<in>set ((ms # outs) ! b). \<forall>j. b \<le> j \<and> j < k \<longrightarrow> body j s = S"
proof (induction b)
  case 0
  then show ?case using ms by simp
next
  case (Suc b)
  then have b: "b < k" by simp
  show ?case
  proof (intro ballI allI impI)
    fix s j assume s: "s \<in> set ((ms # outs) ! Suc b)" and j: "Suc b \<le> j \<and> j < k"
    note pb = props[rule_format, OF b]
    note pn = props[rule_format, OF Suc.prems]
    have "length ((ms # outs) ! Suc b) = length cs" using pn by blast
    then have ne: "cs \<noteq> []" using s by auto
    have sets_b: "sets ! b = map (\<lambda>i. put_body b (cs ! i) ((ms # outs) ! b ! i)) [0..<length cs]"
      and len_b: "length ((ms # outs) ! b) = length cs"
      and dim_b: "\<forall>i<length cs. length (cs ! i) = 6 \<and> b * 6 + 6 \<le> length ((ms # outs) ! b ! i)"
      and sub_b: "set (outs ! b) \<subseteq> set (sets ! b)"
      using pb ne by blast+
    from s have "s \<in> set (sets ! b)" using sub_b by auto
    then obtain i where i: "i < length cs"
      and s_eq: "s = put_body b (cs ! i) ((ms # outs) ! b ! i)"
      unfolding sets_b by auto
    let ?p = "(ms # outs) ! b ! i"
    have mem: "?p \<in> set ((ms # outs) ! b)" using len_b i by simp
    have b6: "b * 6 + 6 \<le> length ?p" and v: "length (cs ! i) = 6" using dim_b i by auto
    have jb: "j \<noteq> b" using j by auto
    have "body j s = body j ?p"
      unfolding s_eq using body_put_body_other[OF b6 v jb] .
    also have "\<dots> = S" using Suc.IH[OF b] mem j by auto
    finally show "body j s = S" .
  qed
qed

section \<open>Initialization without candidates\<close>




section \<open>The filter step of an update\<close>

text \<open>C4: a call of \<^verbatim>\<open>Filter\<close> with a frame stamped \<open>t\<close>, on a tracker whose filter exists
  and with a frame conversion and a filter step that return, makes exactly one filter
  step; its elapsed time is \<open>t\<close> minus the stored clock, or zero when the clock is unset;
  its control input is the zero vector of dimension six times the object count;
  afterwards the clock is \<open>t\<close> and the filter is the one the step left, and the value
  returned is the mean of that filter.\<close>

theorem Filter_step_and_clock:
  assumes "filter_ptr tr = Some (f, calls)"
    and "Ros2Eigen ops ros_image (downsampling_factor tr) = Inr depth"
    and "filter_step ops depth
           (case last_measurement_time tr of None \<Rightarrow> 0 | Some c \<Rightarrow> stamp ros_image - c)
           (Zero (length (object_names tr) * 6)) f = (f', None)"
  shows "\<exists>m tr'. Filter ops ros_image tr = (Inr m, tr') \<and>
     (let t = stamp ros_image;
          dt = (case last_measurement_time tr of None \<Rightarrow> 0 | Some c \<Rightarrow> t - c);
          u = Zero (length (object_names tr) * 6)
      in tr' = tr\<lparr>last_measurement_time := Some t,
                  filter_ptr := Some (f', calls @ [FilterCall depth dt u, MeanRead m, MeanRead m])\<rparr> \<and>
         elapsed_times (calls_of tr') = elapsed_times calls @ [dt] \<and>
         length u = length (object_names tr) * 6 \<and> (\<forall>x\<in>set u. x = 0) \<and>
         last_measurement_time tr' = Some t \<and>
         m = get_mean ops f')"
  unfolding Filter_run[OF assms]
  by (simp add: Let_def calls_of_def elapsed_times_append Zero_def)

theorem Filter_step_and_clock_witness:
  "filter_ptr running =
     Some (\<lparr>pf_rows = 2, pf_cols = 2, pf_dimension = 6, pf_blocks = [[0, 1, 2, 3, 4, 5]],
            pf_samples = [[0, 0, 1, 0, 0, 0]]\<rparr>, []) \<and>
   Ros2Eigen reference (frame 5 2 2) (downsampling_factor running) =
     Inr \<lparr>rows = 2, cols = 2, cells = [1, 1, 1, 1]\<rparr> \<and>
   filter_step reference \<lparr>rows = 2, cols = 2, cells = [1, 1, 1, 1]\<rparr>
     (case last_measurement_time running of None \<Rightarrow> 0 | Some c \<Rightarrow> stamp (frame 5 2 2) - c)
     (Zero (length (object_names running) * 6))
     \<lparr>pf_rows = 2, pf_cols = 2, pf_dimension = 6, pf_blocks = [[0, 1, 2, 3, 4, 5]],
      pf_samples = [[0, 0, 1, 0, 0, 0]]\<rparr> =
     (\<lparr>pf_rows = 2, pf_cols = 2, pf_dimension = 6, pf_blocks = [[0, 1, 2, 3, 4, 5]],
       pf_samples = [[3, 3, 4, 3, 3, 3]]\<rparr>, None) \<and>
   (\<exists>m tr'. Filter reference (frame 5 2 2) running = (Inr m, tr') \<and>
     (let t = stamp (frame 5 2 2);
          dt = (case last_measurement_time running of None \<Rightarrow> 0 | Some c \<Rightarrow> t - c);
          u = Zero (length (object_names running) * 6)
      in tr' = running\<lparr>last_measurement_time := Some t,
                  filter_ptr := Some
                    (\<lparr>pf_rows = 2, pf_cols = 2, pf_dimension = 6,
                      pf_blocks = [[0, 1, 2, 3, 4, 5]], pf_samples = [[3, 3, 4, 3, 3, 3]]\<rparr>,
                     [] @ [FilterCall \<lparr>rows = 2, cols = 2, cells = [1, 1, 1, 1]\<rparr> dt u,
                           MeanRead m, MeanRead m])\<rparr> \<and>
         elapsed_times (calls_of tr') = elapsed_times [] @ [dt] \<and>
         length u = length (object_names running) * 6 \<and> (\<forall>x\<in>set u. x = 0) \<and>
         last_measurement_time tr' = Some t \<and>
         m = get_mean reference
               \<lparr>pf_rows = 2, pf_cols = 2, pf_dimension = 6, pf_blocks = [[0, 1, 2, 3, 4, 5]],
                pf_samples = [[3, 3, 4, 3, 3, 3]]\<rparr>)) \<and>
   fst (Filter reference (frame 5 2 2) running) = Inr [3, 3, 4, 3, 3, 3] \<and>
   elapsed_times (calls_of (snd (Filter reference (frame 5 2 2) running))) = [3]"
proof -
  have h: "filter_ptr running =
     Some (\<lparr>pf_rows = 2, pf_cols = 2, pf_dimension = 6, pf_blocks = [[0, 1, 2, 3, 4, 5]],
            pf_samples = [[0, 0, 1, 0, 0, 0]]\<rparr>, [])"
    by (simp add: running_def)
  have d: "Ros2Eigen reference (frame 5 2 2) (downsampling_factor running) =
     Inr \<lparr>rows = 2, cols = 2, cells = [1, 1, 1, 1]\<rparr>"
    by (simp add: running_def reference_def frame_def eval_nat_numeral)
  have s: "filter_step reference \<lparr>rows = 2, cols = 2, cells = [1, 1, 1, 1]\<rparr>
     (case last_measurement_time running of None \<Rightarrow> 0 | Some c \<Rightarrow> stamp (frame 5 2 2) - c)
     (Zero (length (object_names running) * 6))
     \<lparr>pf_rows = 2, pf_cols = 2, pf_dimension = 6, pf_blocks = [[0, 1, 2, 3, 4, 5]],
      pf_samples = [[0, 0, 1, 0, 0, 0]]\<rparr> =
     (\<lparr>pf_rows = 2, pf_cols = 2, pf_dimension = 6, pf_blocks = [[0, 1, 2, 3, 4, 5]],
       pf_samples = [[3, 3, 4, 3, 3, 3]]\<rparr>, None)"
    by (simp add: running_def reference_def frame_def)
  have v: "fst (Filter reference (frame 5 2 2) running) = Inr [3, 3, 4, 3, 3, 3]"
    "elapsed_times (calls_of (snd (Filter reference (frame 5 2 2) running))) = [3]"
    by code_simp+
  from Filter_step_and_clock[OF h d s] h d s v show ?thesis
    by blast
qed

section \<open>The clock across initializations\<close>

lemma Initialize_members:
  "last_measurement_time (snd (Initialize ops cfg cs ros_image cam partial tr)) =
     last_measurement_time tr"
  "object_names (snd (Initialize ops cfg cs ros_image cam partial tr)) = object_names tr"
  by (simp_all add: Initialize_def Let_def split: sum.splits)

lemma Filter_InrD:
  assumes "Filter ops ros_image tr = (Inr m, tr')"
  shows "\<exists>depth f calls f'.
     filter_ptr tr = Some (f, calls) \<and>
     filter_step ops depth
       (case last_measurement_time tr of None \<Rightarrow> 0 | Some c \<Rightarrow> stamp ros_image - c)
       (Zero (length (object_names tr) * 6)) f = (f', None) \<and>
     tr' = tr\<lparr>last_measurement_time := Some (stamp ros_image),
              filter_ptr := Some (f', calls @
                [FilterCall depth
                   (case last_measurement_time tr of None \<Rightarrow> 0 | Some c \<Rightarrow> stamp ros_image - c)
                   (Zero (length (object_names tr) * 6)), MeanRead m, MeanRead m])\<rparr>"
proof -
  obtain depth where d: "Ros2Eigen ops ros_image (downsampling_factor tr) = Inr depth"
    using assms by (cases "Ros2Eigen ops ros_image (downsampling_factor tr)")
      (simp_all add: Filter_def Let_def)
  obtain f calls where p: "filter_ptr tr = Some (f, calls)"
    using assms d by (cases "filter_ptr tr") (auto simp: Filter_def Let_def)
  obtain f' r where s: "filter_step ops depth
           (case last_measurement_time tr of None \<Rightarrow> 0 | Some c \<Rightarrow> stamp ros_image - c)
           (Zero (length (object_names tr) * 6)) f = (f', r)"
    by (cases "filter_step ops depth
           (case last_measurement_time tr of None \<Rightarrow> 0 | Some c \<Rightarrow> stamp ros_image - c)
           (Zero (length (object_names tr) * 6)) f") blast
  have r: "r = None" using assms unfolding Filter_run[OF p d s] by (cases r) simp_all
  have "tr' = tr\<lparr>last_measurement_time := Some (stamp ros_image),
              filter_ptr := Some (f', calls @
                [FilterCall depth
                   (case last_measurement_time tr of None \<Rightarrow> 0 | Some c \<Rightarrow> stamp ros_image - c)
                   (Zero (length (object_names tr) * 6)), MeanRead m, MeanRead m])\<rparr>"
    using assms unfolding Filter_run[OF p d s] r by auto
  then show ?thesis using p s[unfolded r] by blast
qed

lemma tracking_init:
  "Initialize reference (settings 4 [[0, 1, 2, 3, 4, 5]]) [[0, 0, 1, 0, 0, 0]] (frame 0 4 4)
     pinhole False fresh = (None, tracking)"
  by code_simp

text \<open>C3 (amended): \<^verbatim>\<open>Initialize\<close> does not touch the clock, whether it returns or raises:
  the clock is unset at construction and written by \<^verbatim>\<open>Filter\<close> alone. On a tracker whose
  clock is unset when \<^verbatim>\<open>Initialize\<close> is called, two updates after it that return
  estimates make their filter steps with zero elapsed time and with the difference of
  the two stamps: the log shows the two steps with these elapsed times, and the filter
  after the second update is the one these two steps leave.\<close>

theorem Initialize_leaves_clock:
  assumes "Initialize ops cfg cs ros_image cam partial tr = (r, tr')"
  shows "last_measurement_time tr' = last_measurement_time tr \<and>
     (\<forall>m0 tr0 m1 tr1.
        last_measurement_time tr = None \<and>
        Filter ops frame0 tr' = (Inr m0, tr0) \<and> Filter ops frame1 tr0 = (Inr m1, tr1) \<longrightarrow>
        elapsed_times (calls_of tr1) =
          elapsed_times (calls_of tr') @ [0, stamp frame1 - stamp frame0] \<and>
        (\<exists>f calls d0 d1.
           filter_ptr tr' = Some (f, calls) \<and>
           filter_ptr tr1 = Some
             (replay ops
                [FilterCall d0 0 (Zero (length (object_names tr) * 6)),
                 FilterCall d1 (stamp frame1 - stamp frame0)
                   (Zero (length (object_names tr) * 6))] f,
              calls @
                [FilterCall d0 0 (Zero (length (object_names tr) * 6)),
                 MeanRead m0, MeanRead m0,
                 FilterCall d1 (stamp frame1 - stamp frame0)
                   (Zero (length (object_names tr) * 6)),
                 MeanRead m1, MeanRead m1])))"
proof -
  have clock: "last_measurement_time tr' = last_measurement_time tr"
    and names: "object_names tr' = object_names tr"
    using Initialize_members[of ops cfg cs ros_image cam partial tr] assms by simp_all
  have "elapsed_times (calls_of tr1) =
          elapsed_times (calls_of tr') @ [0, stamp frame1 - stamp frame0] \<and>
        (\<exists>f calls d0 d1.
           filter_ptr tr' = Some (f, calls) \<and>
           filter_ptr tr1 = Some
             (replay ops
                [FilterCall d0 0 (Zero (length (object_names tr) * 6)),
                 FilterCall d1 (stamp frame1 - stamp frame0)
                   (Zero (length (object_names tr) * 6))] f,
              calls @
                [FilterCall d0 0 (Zero (length (object_names tr) * 6)),
                 MeanRead m0, MeanRead m0,
                 FilterCall d1 (stamp frame1 - stamp frame0)
                   (Zero (length (object_names tr) * 6)),
                 MeanRead m1, MeanRead m1]))"
    if n: "last_measurement_time tr = None"
      and f0: "Filter ops frame0 tr' = (Inr m0, tr0)"
      and f1: "Filter ops frame1 tr0 = (Inr m1, tr1)" for m0 tr0 m1 tr1
  proof -
    let ?Z = "Zero (length (object_names tr) * 6)"
    from Filter_InrD[OF f0] clock n names obtain d0 f calls g0 where
      p: "filter_ptr tr' = Some (f, calls)"
      and s0: "filter_step ops d0 0 ?Z f = (g0, None)"
      and tr0: "tr0 = tr'\<lparr>last_measurement_time := Some (stamp frame0),
                  filter_ptr := Some (g0, calls @ [FilterCall d0 0 ?Z, MeanRead m0, MeanRead m0])\<rparr>"
      by auto
    have t0: "last_measurement_time tr0 = Some (stamp frame0)"
      and n0: "object_names tr0 = object_names tr"
      and p0: "filter_ptr tr0 = Some (g0, calls @ [FilterCall d0 0 ?Z, MeanRead m0, MeanRead m0])"
      unfolding tr0 using names by simp_all
    from Filter_InrD[OF f1] t0 n0 p0 obtain d1 g1 where
      s1: "filter_step ops d1 (stamp frame1 - stamp frame0) ?Z g0 = (g1, None)"
      and tr1: "tr1 = tr0\<lparr>last_measurement_time := Some (stamp frame1),
                  filter_ptr := Some (g1, (calls @ [FilterCall d0 0 ?Z, MeanRead m0, MeanRead m0]) @
                    [FilterCall d1 (stamp frame1 - stamp frame0) ?Z, MeanRead m1, MeanRead m1])\<rparr>"
      by auto
    have e: "elapsed_times (calls_of tr1) =
          elapsed_times (calls_of tr') @ [0, stamp frame1 - stamp frame0]"
      unfolding tr1 using p by (simp add: calls_of_def elapsed_times_append)
    have g: "filter_ptr tr1 = Some
             (replay ops [FilterCall d0 0 ?Z, FilterCall d1 (stamp frame1 - stamp frame0) ?Z] f,
              calls @
                [FilterCall d0 0 ?Z, MeanRead m0, MeanRead m0,
                 FilterCall d1 (stamp frame1 - stamp frame0) ?Z, MeanRead m1, MeanRead m1])"
      unfolding tr1 using s0 s1 by simp
    show ?thesis using e p g by blast
  qed
  then show ?thesis using clock by blast
qed

theorem Initialize_leaves_clock_witness:
  "Initialize reference (settings 4 [[0, 1, 2, 3, 4, 5]]) [[0, 0, 1, 0, 0, 0]] (frame 0 4 4)
     pinhole False fresh = (None, tracking) \<and>
   last_measurement_time tracking = last_measurement_time fresh \<and>
   last_measurement_time fresh = None \<and>
   (\<exists>tr0 tr1.
      Filter reference (frame 1 4 4) tracking = (Inr [0, 0, 1, 0, 0, 0], tr0) \<and>
      Filter reference (frame 3 4 4) tr0 = (Inr [2, 2, 3, 2, 2, 2], tr1) \<and>
      elapsed_times (calls_of tr1) =
        elapsed_times (calls_of tracking) @ [0, stamp (frame 3 4 4) - stamp (frame 1 4 4)] \<and>
      (\<exists>f calls d0 d1.
         filter_ptr tracking = Some (f, calls) \<and>
         filter_ptr tr1 = Some
           (replay reference
              [FilterCall d0 0 (Zero (length (object_names fresh) * 6)),
               FilterCall d1 (stamp (frame 3 4 4) - stamp (frame 1 4 4))
                 (Zero (length (object_names fresh) * 6))] f,
            calls @
              [FilterCall d0 0 (Zero (length (object_names fresh) * 6)),
               MeanRead [0, 0, 1, 0, 0, 0], MeanRead [0, 0, 1, 0, 0, 0],
               FilterCall d1 (stamp (frame 3 4 4) - stamp (frame 1 4 4))
                 (Zero (length (object_names fresh) * 6)),
               MeanRead [2, 2, 3, 2, 2, 2], MeanRead [2, 2, 3, 2, 2, 2]])))"
proof -
  let ?tr0 = "snd (Filter reference (frame 1 4 4) tracking)"
  let ?tr1 = "snd (Filter reference (frame 3 4 4) ?tr0)"
  have n: "last_measurement_time fresh = None"
    by (simp add: fresh_def MultiObjectTracker_def)
  have "fst (Filter reference (frame 1 4 4) tracking) = Inr [0, 0, 1, 0, 0, 0]"
    by code_simp
  then have f0: "Filter reference (frame 1 4 4) tracking = (Inr [0, 0, 1, 0, 0, 0], ?tr0)"
    by (simp add: prod_eq_iff)
  have "fst (Filter reference (frame 3 4 4) ?tr0) = Inr [2, 2, 3, 2, 2, 2]"
    by code_simp
  then have f1: "Filter reference (frame 3 4 4) ?tr0 = (Inr [2, 2, 3, 2, 2, 2], ?tr1)"
    by (simp add: prod_eq_iff)
  note t = Initialize_leaves_clock[OF tracking_init, of "frame 1 4 4" "frame 3 4 4"]
  note c = conjunct2[OF t, rule_format, OF conjI[OF n conjI[OF f0 f1]]]
  show ?thesis
    using tracking_init conjunct1[OF t] n f0 f1 c by blast
qed

theorem Initialize_leaves_clock_counterexample:
  "fst (session reference
        [Init (settings 4 [[0, 1, 2, 3, 4, 5]]) [[0, 0, 1, 0, 0, 0]] (frame 0 4 4) pinhole False,
         Update (frame 1 4 4),
         Init (settings 4 [[0, 1, 2, 3, 4, 5]]) [[0, 0, 1, 0, 0, 0]] (frame 2 4 4) pinhole False,
         Update (frame 3 4 4)] fresh)
     = [Initialized, Estimate [0, 0, 1, 0, 0, 0], Initialized, Estimate [2, 2, 3, 2, 2, 2]] \<and>
   elapsed_times (calls_of (snd (session reference
        [Init (settings 4 [[0, 1, 2, 3, 4, 5]]) [[0, 0, 1, 0, 0, 0]] (frame 0 4 4) pinhole False,
         Update (frame 1 4 4),
         Init (settings 4 [[0, 1, 2, 3, 4, 5]]) [[0, 0, 1, 0, 0, 0]] (frame 2 4 4) pinhole False,
         Update (frame 3 4 4)] fresh))) = [0, 2] \<and>
   fst (session reference
        [Init (settings 4 [[0, 1, 2, 3, 4, 5]]) [[0, 0, 1, 0, 0, 0]] (frame 2 4 4) pinhole False,
         Update (frame 3 4 4)] fresh)
     = [Initialized, Estimate [0, 0, 1, 0, 0, 0]] \<and>
   elapsed_times (calls_of (snd (session reference
        [Init (settings 4 [[0, 1, 2, 3, 4, 5]]) [[0, 0, 1, 0, 0, 0]] (frame 2 4 4) pinhole False,
         Update (frame 3 4 4)] fresh))) = [0, 0]"
  by code_simp

section \<open>Frames of another size\<close>

text \<open>C5: with the filter of the specification, which rejects a frame of another size
  than the one it was built for, \<^verbatim>\<open>Filter\<close> passes the rejection on to its caller: the call
  fails with the sensor input mismatch and returns no estimate, the filter and its
  population are the ones from before the call, and the filter has seen the one step
  that it rejected. (The clock, if it was unset, has been set to the stamp of the
  rejected frame before the step.)\<close>

theorem Filter_rejects_frame_of_other_size:
  assumes "filter_ptr tr = Some (f, calls)"
    and "Ros2Eigen reference ros_image (downsampling_factor tr) = Inr depth"
    and "rows depth \<noteq> pf_rows f \<or> cols depth \<noteq> pf_cols f"
  shows "\<exists>tr'. Filter reference ros_image tr = (Inl (Thrown SensorInputMismatch), tr') \<and>
     tr' = tr\<lparr>last_measurement_time :=
                 Some (case last_measurement_time tr of None \<Rightarrow> stamp ros_image | Some c \<Rightarrow> c),
               filter_ptr := Some (f, calls @
                 [FilterCall depth
                    (case last_measurement_time tr of None \<Rightarrow> 0 | Some c \<Rightarrow> stamp ros_image - c)
                    (Zero (length (object_names tr) * 6))])\<rparr> \<and>
     map_option (get_samples reference \<circ> fst) (filter_ptr tr') =
       map_option (get_samples reference \<circ> fst) (filter_ptr tr)"
proof -
  have s: "filter_step reference depth
           (case last_measurement_time tr of None \<Rightarrow> 0 | Some c \<Rightarrow> stamp ros_image - c)
           (Zero (length (object_names tr) * 6)) f = (f, Some SensorInputMismatch)"
    using assms(3) by (auto simp: reference_def)
  show ?thesis
    unfolding Filter_run[OF assms(1,2) s] using assms(1) by simp
qed

theorem Filter_rejects_frame_of_other_size_witness:
  "filter_ptr tracking = Some (fst (the (filter_ptr tracking)), calls_of tracking) \<and>
   Ros2Eigen reference (frame 3 2 2) (downsampling_factor tracking) =
     Inr \<lparr>rows = 2, cols = 2, cells = [1, 1, 1, 1]\<rparr> \<and>
   rows \<lparr>rows = 2, cols = 2, cells = [1, 1, 1, 1::real]\<rparr> = 2 \<and>
   pf_rows (fst (the (filter_ptr tracking))) = 4 \<and>
   (\<exists>tr'. Filter reference (frame 3 2 2) tracking = (Inl (Thrown SensorInputMismatch), tr') \<and>
     tr' = tracking\<lparr>last_measurement_time :=
                 Some (case last_measurement_time tracking of None \<Rightarrow> stamp (frame 3 2 2)
                       | Some c \<Rightarrow> c),
               filter_ptr := Some (fst (the (filter_ptr tracking)), calls_of tracking @
                 [FilterCall \<lparr>rows = 2, cols = 2, cells = [1, 1, 1, 1]\<rparr>
                    (case last_measurement_time tracking of None \<Rightarrow> 0
                     | Some c \<Rightarrow> stamp (frame 3 2 2) - c)
                    (Zero (length (object_names tracking) * 6))])\<rparr> \<and>
     map_option (get_samples reference \<circ> fst) (filter_ptr tr') =
       map_option (get_samples reference \<circ> fst) (filter_ptr tracking)) \<and>
   fst (session reference
        [Init (settings 4 [[0, 1, 2, 3, 4, 5]]) [[0, 0, 1, 0, 0, 0]] (frame 0 4 4) pinhole False,
         Update (frame 1 4 4), Update (frame 3 2 2), Update (frame 4 4 4)] fresh)
     = [Initialized, Estimate [0, 0, 1, 0, 0, 0], Failed (Thrown SensorInputMismatch),
        Estimate [3, 3, 4, 3, 3, 3]]"
proof -
  have h: "filter_ptr tracking = Some (fst (the (filter_ptr tracking)), calls_of tracking)"
    by (simp add: tracking_def calls_of_def)
  have d: "Ros2Eigen reference (frame 3 2 2) (downsampling_factor tracking) =
     Inr \<lparr>rows = 2, cols = 2, cells = [1, 1, 1, 1]\<rparr>"
    by (simp add: tracking_def reference_def frame_def eval_nat_numeral)
  have r: "rows \<lparr>rows = 2, cols = 2, cells = [1, 1, 1, 1::real]\<rparr> = 2"
    "pf_rows (fst (the (filter_ptr tracking))) = 4"
    by (simp_all add: tracking_def)
  have m: "rows \<lparr>rows = 2, cols = 2, cells = [1, 1, 1, 1::real]\<rparr>
             \<noteq> pf_rows (fst (the (filter_ptr tracking))) \<or>
           cols \<lparr>rows = 2, cols = 2, cells = [1, 1, 1, 1::real]\<rparr>
             \<noteq> pf_cols (fst (the (filter_ptr tracking)))"
    using r by simp
  have v: "fst (session reference
        [Init (settings 4 [[0, 1, 2, 3, 4, 5]]) [[0, 0, 1, 0, 0, 0]] (frame 0 4 4) pinhole False,
         Update (frame 1 4 4), Update (frame 3 2 2), Update (frame 4 4 4)] fresh)
     = [Initialized, Estimate [0, 0, 1, 0, 0, 0], Failed (Thrown SensorInputMismatch),
        Estimate [3, 3, 4, 3, 3, 3]]"
    by code_simp
  from Filter_rejects_frame_of_other_size[OF h d m] h d r v show ?thesis
    by blast
qed

section \<open>Full-state initialization\<close>

text \<open>C7 (amended): in full-state mode (\<^verbatim>\<open>state_is_partial\<close> false, a non-empty list of
  sampling blocks, calls on the filter that return) the filter receives exactly the
  candidate states, in their order and number, with no replication or resampling before
  the filter step; exactly one filter step is made on the first frame with zero elapsed
  time, under the schedule of one block with all coordinates; then the population is
  resampled to the operating size under that schedule, and at last the configured
  schedule is installed. The filter the tracker holds afterwards is the one these five
  calls have left.\<close>

theorem full_state_initialization:
  assumes "sampling_blocks cfg \<noteq> []"
    and "Ros2Eigen ops ros_image (downsampling_factor tr) = Inr depth"
    and "new_filter ops
           (constructor_args cfg (object_names tr)
              (scale_camera ops camera_matrix (downsampling_factor tr)) depth
              (length initial_states)) = Inr f0"
    and "set_sampling_blocks ops [[0..<length (object_names tr) * 6]] f0 = (f1, None)"
    and "set_samples ops initial_states f1 = (f2, None)"
    and "filter_step ops depth 0 (Zero (length (object_names tr) * 6)) f2 = (f3, None)"
    and "resample ops (nat (evaluation_count cfg mod 2 ^ 64) div length (sampling_blocks cfg)) f3
           = (f4, None)"
    and "set_sampling_blocks ops (sampling_blocks cfg) f4 = (f5, None)"
  shows "\<exists>tr'.
     Initialize ops cfg initial_states ros_image camera_matrix False tr = (None, tr') \<and>
     tr' = tr\<lparr>filter_ptr := Some (f5, calls_of tr')\<rparr> \<and>
     calls_of tr' =
       [SamplingBlocksCall [[0..<length (object_names tr) * 6]],
        SamplesCall initial_states,
        FilterCall depth 0 (Zero (length (object_names tr) * 6)),
        ResampleCall (nat (evaluation_count cfg mod 2 ^ 64) div length (sampling_blocks cfg)),
        SamplingBlocksCall (sampling_blocks cfg)] \<and>
     stepped_samples [] (calls_of tr') = [initial_states] \<and>
     active_schedules (sampling_blocks cfg) (calls_of tr') =
       [[[0..<length (object_names tr) * 6]]]"
  unfolding Initialize_full_run[OF assms(2,3,4,5,6,1,7,8)]
  by (simp add: calls_of_def)

theorem full_state_initialization_witness:
  "sampling_blocks (settings 4 [[0, 1, 2, 3, 4, 5]]) \<noteq> [] \<and>
   Ros2Eigen reference (frame 0 4 4) (downsampling_factor fresh) =
     Inr \<lparr>rows = 4, cols = 4, cells = replicate 16 1\<rparr> \<and>
   new_filter reference
     (constructor_args (settings 4 [[0, 1, 2, 3, 4, 5]]) (object_names fresh)
        (scale_camera reference pinhole (downsampling_factor fresh))
        \<lparr>rows = 4, cols = 4, cells = replicate 16 1\<rparr>
        (length [[0, 0, 1, 0, 0, 0], [0, 0, 2, 0, 0, 0::real]])) = Inr (built []) \<and>
   set_sampling_blocks reference [[0..<length (object_names fresh) * 6]] (built [])
     = (built [], None) \<and>
   set_samples reference [[0, 0, 1, 0, 0, 0], [0, 0, 2, 0, 0, 0]] (built [])
     = (built [[0, 0, 1, 0, 0, 0], [0, 0, 2, 0, 0, 0]], None) \<and>
   filter_step reference \<lparr>rows = 4, cols = 4, cells = replicate 16 1\<rparr> 0
     (Zero (length (object_names fresh) * 6)) (built [[0, 0, 1, 0, 0, 0], [0, 0, 2, 0, 0, 0]])
     = (built [[0, 0, 1, 0, 0, 0], [0, 0, 2, 0, 0, 0]], None) \<and>
   resample reference
     (nat (evaluation_count (settings 4 [[0, 1, 2, 3, 4, 5]]) mod 2 ^ 64)
        div length (sampling_blocks (settings 4 [[0, 1, 2, 3, 4, 5]])))
     (built [[0, 0, 1, 0, 0, 0], [0, 0, 2, 0, 0, 0]])
     = (built [[0, 0, 1, 0, 0, 0], [0, 0, 2, 0, 0, 0], [0, 0, 1, 0, 0, 0], [0, 0, 2, 0, 0, 0]],
        None) \<and>
   set_sampling_blocks reference (sampling_blocks (settings 4 [[0, 1, 2, 3, 4, 5]]))
     (built [[0, 0, 1, 0, 0, 0], [0, 0, 2, 0, 0, 0], [0, 0, 1, 0, 0, 0], [0, 0, 2, 0, 0, 0]])
     = (built [[0, 0, 1, 0, 0, 0], [0, 0, 2, 0, 0, 0], [0, 0, 1, 0, 0, 0], [0, 0, 2, 0, 0, 0]],
        None) \<and>
   (\<exists>tr'.
     Initialize reference (settings 4 [[0, 1, 2, 3, 4, 5]])
       [[0, 0, 1, 0, 0, 0], [0, 0, 2, 0, 0, 0]] (frame 0 4 4) pinhole False fresh = (None, tr') \<and>
     tr' = fresh\<lparr>filter_ptr := Some
             (built [[0, 0, 1, 0, 0, 0], [0, 0, 2, 0, 0, 0], [0, 0, 1, 0, 0, 0], [0, 0, 2, 0, 0, 0]],
              calls_of tr')\<rparr> \<and>
     calls_of tr' =
       [SamplingBlocksCall [[0..<length (object_names fresh) * 6]],
        SamplesCall [[0, 0, 1, 0, 0, 0], [0, 0, 2, 0, 0, 0]],
        FilterCall \<lparr>rows = 4, cols = 4, cells = replicate 16 1\<rparr> 0
          (Zero (length (object_names fresh) * 6)),
        ResampleCall (nat (evaluation_count (settings 4 [[0, 1, 2, 3, 4, 5]]) mod 2 ^ 64)
                        div length (sampling_blocks (settings 4 [[0, 1, 2, 3, 4, 5]]))),
        SamplingBlocksCall (sampling_blocks (settings 4 [[0, 1, 2, 3, 4, 5]]))] \<and>
     stepped_samples [] (calls_of tr') = [[[0, 0, 1, 0, 0, 0], [0, 0, 2, 0, 0, 0]]] \<and>
     active_schedules (sampling_blocks (settings 4 [[0, 1, 2, 3, 4, 5]])) (calls_of tr') =
       [[[0..<length (object_names fresh) * 6]]])"
proof -
  have h1: "sampling_blocks (settings 4 [[0, 1, 2, 3, 4, 5]]) \<noteq> []"
    by (simp add: settings_def)
  have h2: "Ros2Eigen reference (frame 0 4 4) (downsampling_factor fresh) =
     Inr \<lparr>rows = 4, cols = 4, cells = replicate 16 1\<rparr>"
    by code_simp
  have h3: "new_filter reference
     (constructor_args (settings 4 [[0, 1, 2, 3, 4, 5]]) (object_names fresh)
        (scale_camera reference pinhole (downsampling_factor fresh))
        \<lparr>rows = 4, cols = 4, cells = replicate 16 1\<rparr>
        (length [[0, 0, 1, 0, 0, 0], [0, 0, 2, 0, 0, 0::real]])) = Inr (built [])"
    by code_simp
  have h4: "set_sampling_blocks reference [[0..<length (object_names fresh) * 6]] (built [])
     = (built [], None)"
    by code_simp
  have h5: "set_samples reference [[0, 0, 1, 0, 0, 0], [0, 0, 2, 0, 0, 0]] (built [])
     = (built [[0, 0, 1, 0, 0, 0], [0, 0, 2, 0, 0, 0]], None)"
    by code_simp
  have h6: "filter_step reference \<lparr>rows = 4, cols = 4, cells = replicate 16 1\<rparr> 0
     (Zero (length (object_names fresh) * 6)) (built [[0, 0, 1, 0, 0, 0], [0, 0, 2, 0, 0, 0]])
     = (built [[0, 0, 1, 0, 0, 0], [0, 0, 2, 0, 0, 0]], None)"
    by code_simp
  have h7: "resample reference
     (nat (evaluation_count (settings 4 [[0, 1, 2, 3, 4, 5]]) mod 2 ^ 64)
        div length (sampling_blocks (settings 4 [[0, 1, 2, 3, 4, 5]])))
     (built [[0, 0, 1, 0, 0, 0], [0, 0, 2, 0, 0, 0]])
     = (built [[0, 0, 1, 0, 0, 0], [0, 0, 2, 0, 0, 0], [0, 0, 1, 0, 0, 0], [0, 0, 2, 0, 0, 0]],
        None)"
    by code_simp
  have h8: "set_sampling_blocks reference (sampling_blocks (settings 4 [[0, 1, 2, 3, 4, 5]]))
     (built [[0, 0, 1, 0, 0, 0], [0, 0, 2, 0, 0, 0], [0, 0, 1, 0, 0, 0], [0, 0, 2, 0, 0, 0]])
     = (built [[0, 0, 1, 0, 0, 0], [0, 0, 2, 0, 0, 0], [0, 0, 1, 0, 0, 0], [0, 0, 2, 0, 0, 0]],
        None)"
    by code_simp
  from full_state_initialization[OF h1 h2 h3 h4 h5 h6 h7 h8]
    h1 h2 h3 h4 h5 h6 h7 h8
  show ?thesis by blast
qed

theorem full_state_initialization_counterexample:
  "fst (Initialize reference (settings 4 [[0, 1, 2, 3, 4, 5]]) [[0, 0, 1, 0, 0, 0]] (frame 0 4 4)
        pinhole False fresh) = None \<and>
   stepped_samples [] (calls_of (snd
     (Initialize reference (settings 4 [[0, 1, 2, 3, 4, 5]]) [[0, 0, 1, 0, 0, 0]] (frame 0 4 4)
        pinhole False fresh))) = [[[0, 0, 1, 0, 0, 0]]] \<and>
   operating_size (settings 4 [[0, 1, 2, 3, 4, 5]]) = Inr 4"
  by code_simp

section \<open>The configuration\<close>





section \<open>Staged partial initialization\<close>

lemma schedules_installed_stages:
  "schedules_installed
     (concat (map (\<lambda>j. stage_calls depth k (sets j) (outs j)) xs) @ rest)
   = schedules_installed rest"
  by (induction xs) (simp_all add: stage_calls_def)

text \<open>C1: a staged partial initialization that returns, with \<open>k\<close> configured objects and
  \<open>N\<close> candidate states on a filter that meets its contract, has made exactly \<open>k\<close> stages,
  for the object indices \<open>0\<close> to \<open>k - 1\<close> in this order. Stage \<open>b\<close> sets \<open>N\<close> samples whose
  block \<open>b\<close> holds the candidates, makes one filter step at zero elapsed time, resamples
  to \<open>N\<close> and reads the samples back (\<open>N\<close> of them, when there are candidates). After the
  last stage come exactly one resample to the operating size and the installation of the
  configured schedule. The calls of the log have been made on the filter, in this order:
  the filter the tracker holds is the one they leave, each of them has returned, and the
  samples read back are the ones the filter held.\<close>

theorem staged_initialization_cycles:
  assumes c: "selects_at_rest ops"
    and ok: "Initialize ops cfg initial_states ros_image camera_matrix True tr = (None, tr')"
  shows "\<exists>depth f0 g sets outs.
     Ros2Eigen ops ros_image (downsampling_factor tr) = Inr depth \<and>
     new_filter ops
       (constructor_args cfg (object_names tr)
          (scale_camera ops camera_matrix (downsampling_factor tr)) depth
          (length initial_states)) = Inr f0 \<and>
     tr' = tr\<lparr>filter_ptr := Some (g, calls_of tr')\<rparr> \<and>
     calls_of tr' =
       [SamplingBlocksCall [[0..<length (object_names tr) * 6]]] @
       concat (map (\<lambda>b. [SamplesCall (sets ! b),
                          FilterCall depth 0 (Zero (length (object_names tr) * 6)),
                          ResampleCall (length initial_states),
                          SamplesRead (outs ! b)])
                 [0..<length (object_names tr)]) @
       [ResampleCall (nat (evaluation_count cfg mod 2 ^ 64) div length (sampling_blocks cfg)),
        SamplingBlocksCall (sampling_blocks cfg)] \<and>
     g = replay ops (calls_of tr') f0 \<and> clean ops (calls_of tr') f0 \<and>
     length sets = length (object_names tr) \<and> length outs = length (object_names tr) \<and>
     (\<forall>b<length (object_names tr).
        length (sets ! b) = length initial_states \<and>
        (\<forall>i<length initial_states. body b (sets ! b ! i) = initial_states ! i) \<and>
        (initial_states \<noteq> [] \<longrightarrow> length (outs ! b) = length initial_states))"
proof -
  define k where "k = length (object_names tr)"
  define ms where "ms = replicate (length initial_states) (default_state k)"
  define M where "M = nat (evaluation_count cfg mod 2 ^ 64) div length (sampling_blocks cfg)"
  from Initialize_partial[OF c ok]
  obtain depth f0 g sets outs where
    d: "Ros2Eigen ops ros_image (downsampling_factor tr) = Inr depth"
    and f0: "new_filter ops
       (constructor_args cfg (object_names tr)
          (scale_camera ops camera_matrix (downsampling_factor tr)) depth
          (length initial_states)) = Inr f0"
    and tr': "tr' = tr\<lparr>filter_ptr := Some (g,
       [SamplingBlocksCall [[0..<k * 6]]] @
       concat (map (\<lambda>j. stage_calls depth k (sets ! j) (outs ! j)) [0..<k]) @
       [ResampleCall M, SamplingBlocksCall (sampling_blocks cfg)])\<rparr>"
    and g: "g = replay ops
       ([SamplingBlocksCall [[0..<k * 6]]] @
        concat (map (\<lambda>j. stage_calls depth k (sets ! j) (outs ! j)) [0..<k]) @
        [ResampleCall M, SamplingBlocksCall (sampling_blocks cfg)]) f0"
    and cl: "clean ops
       ([SamplingBlocksCall [[0..<k * 6]]] @
        concat (map (\<lambda>j. stage_calls depth k (sets ! j) (outs ! j)) [0..<k]) @
        [ResampleCall M, SamplingBlocksCall (sampling_blocks cfg)]) f0"
    and len: "length sets = k" "length outs = k"
    and props: "\<forall>j<k.
        sets ! j = map (\<lambda>i. put_body j (initial_states ! i) ((ms # outs) ! j ! i))
                     [0..<length initial_states] \<and>
        length ((ms # outs) ! j) = length initial_states \<and>
        (\<forall>i<length initial_states. length (initial_states ! i) = 6 \<and>
           j * 6 + 6 \<le> length ((ms # outs) ! j ! i)) \<and>
        (initial_states \<noteq> [] \<longrightarrow>
           length (outs ! j) = length initial_states \<and> set (outs ! j) \<subseteq> set (sets ! j))"
    unfolding k_def ms_def M_def by blast
  have slen: "length (sets ! b) = length initial_states" if "b < k" for b
    using props that by simp
  have m: "map (\<lambda>j. stage_calls depth k (sets ! j) (outs ! j)) [0..<k] =
           map (\<lambda>b. [SamplesCall (sets ! b), FilterCall depth 0 (Zero (k * 6)),
                      ResampleCall (length initial_states), SamplesRead (outs ! b)]) [0..<k]"
    by (rule map_cong) (simp_all add: stage_calls_def slen)
  have inj: "body b (sets ! b ! i) = initial_states ! i"
    if b: "b < k" and i: "i < length initial_states" for b i
  proof -
    note pb = props[rule_format, OF b]
    have "sets ! b ! i = put_body b (initial_states ! i) ((ms # outs) ! b ! i)"
      using pb i by simp
    moreover have "b * 6 + 6 \<le> length ((ms # outs) ! b ! i)" "length (initial_states ! i) = 6"
      using pb i by auto
    ultimately show ?thesis by (simp add: body_put_body_same)
  qed
  have olen: "length (outs ! b) = length initial_states"
    if "b < k" "initial_states \<noteq> []" for b
    using props that by simp
  have calls: "calls_of tr' =
       [SamplingBlocksCall [[0..<k * 6]]] @
       concat (map (\<lambda>b. [SamplesCall (sets ! b), FilterCall depth 0 (Zero (k * 6)),
                      ResampleCall (length initial_states), SamplesRead (outs ! b)]) [0..<k]) @
       [ResampleCall M, SamplingBlocksCall (sampling_blocks cfg)]"
    unfolding tr' m by (simp add: calls_of_def)
  have 1: "tr' = tr\<lparr>filter_ptr := Some (g, calls_of tr')\<rparr>"
    unfolding calls unfolding tr' m by simp
  have 2: "g = replay ops (calls_of tr') f0" "clean ops (calls_of tr') f0"
    using g cl unfolding calls m by simp_all
  show ?thesis
    unfolding k_def[symmetric] M_def[symmetric]
    using d f0 1 calls 2 len slen inj olen by blast
qed


theorem staged_initialization_cycles_witness:
  "selects_at_rest reference \<and>
   fst (Initialize reference (settings 4 [[0, 1, 2, 3, 4, 5], [6, 7, 8, 9, 10, 11]])
          [[1, 2, 3, 4, 5, 6], [7, 8, 9, 10, 11, 12]] (frame 0 4 4) pinhole True pair) = None \<and>
   (\<exists>depth f0 g sets outs.
     Ros2Eigen reference (frame 0 4 4) (downsampling_factor pair) = Inr depth \<and>
     new_filter reference
       (constructor_args (settings 4 [[0, 1, 2, 3, 4, 5], [6, 7, 8, 9, 10, 11]])
          (object_names pair) (scale_camera reference pinhole (downsampling_factor pair)) depth
          (length [[1, 2, 3, 4, 5, 6], [7, 8, 9, 10, 11, 12::real]])) = Inr f0 \<and>
     snd (Initialize reference (settings 4 [[0, 1, 2, 3, 4, 5], [6, 7, 8, 9, 10, 11]])
            [[1, 2, 3, 4, 5, 6], [7, 8, 9, 10, 11, 12]] (frame 0 4 4) pinhole True pair)
       = pair\<lparr>filter_ptr := Some (g, calls_of (snd
           (Initialize reference (settings 4 [[0, 1, 2, 3, 4, 5], [6, 7, 8, 9, 10, 11]])
              [[1, 2, 3, 4, 5, 6], [7, 8, 9, 10, 11, 12]] (frame 0 4 4) pinhole True pair)))\<rparr> \<and>
     calls_of (snd (Initialize reference (settings 4 [[0, 1, 2, 3, 4, 5], [6, 7, 8, 9, 10, 11]])
            [[1, 2, 3, 4, 5, 6], [7, 8, 9, 10, 11, 12]] (frame 0 4 4) pinhole True pair)) =
       [SamplingBlocksCall [[0..<length (object_names pair) * 6]]] @
       concat (map (\<lambda>b. [SamplesCall (sets ! b),
                          FilterCall depth 0 (Zero (length (object_names pair) * 6)),
                          ResampleCall (length [[1, 2, 3, 4, 5, 6], [7, 8, 9, 10, 11, 12::real]]),
                          SamplesRead (outs ! b)])
                 [0..<length (object_names pair)]) @
       [ResampleCall (nat (evaluation_count (settings 4 [[0, 1, 2, 3, 4, 5], [6, 7, 8, 9, 10, 11]])
                             mod 2 ^ 64)
                        div length (sampling_blocks
                                      (settings 4 [[0, 1, 2, 3, 4, 5], [6, 7, 8, 9, 10, 11]]))),
        SamplingBlocksCall
          (sampling_blocks (settings 4 [[0, 1, 2, 3, 4, 5], [6, 7, 8, 9, 10, 11]]))] \<and>
     g = replay reference (calls_of (snd
           (Initialize reference (settings 4 [[0, 1, 2, 3, 4, 5], [6, 7, 8, 9, 10, 11]])
              [[1, 2, 3, 4, 5, 6], [7, 8, 9, 10, 11, 12]] (frame 0 4 4) pinhole True pair))) f0 \<and>
     clean reference (calls_of (snd
           (Initialize reference (settings 4 [[0, 1, 2, 3, 4, 5], [6, 7, 8, 9, 10, 11]])
              [[1, 2, 3, 4, 5, 6], [7, 8, 9, 10, 11, 12]] (frame 0 4 4) pinhole True pair))) f0 \<and>
     length sets = length (object_names pair) \<and> length outs = length (object_names pair) \<and>
     (\<forall>b<length (object_names pair).
        length (sets ! b) = length [[1, 2, 3, 4, 5, 6], [7, 8, 9, 10, 11, 12::real]] \<and>
        (\<forall>i<length [[1, 2, 3, 4, 5, 6], [7, 8, 9, 10, 11, 12::real]].
           body b (sets ! b ! i) = [[1, 2, 3, 4, 5, 6], [7, 8, 9, 10, 11, 12]] ! i) \<and>
        ([[1, 2, 3, 4, 5, 6], [7, 8, 9, 10, 11, 12::real]] \<noteq> [] \<longrightarrow>
           length (outs ! b) = length [[1, 2, 3, 4, 5, 6], [7, 8, 9, 10, 11, 12::real]]))) \<and>
   calls_of (snd (Initialize reference (settings 4 [[0, 1, 2, 3, 4, 5], [6, 7, 8, 9, 10, 11]])
        [[1, 2, 3, 4, 5, 6], [7, 8, 9, 10, 11, 12]] (frame 0 4 4) pinhole True pair))
   = [SamplingBlocksCall [[0, 1, 2, 3, 4, 5, 6, 7, 8, 9, 10, 11]],
      SamplesCall [[1, 2, 3, 4, 5, 6, 0, 0, 3 / 2, 0, 0, 0],
                   [7, 8, 9, 10, 11, 12, 0, 0, 3 / 2, 0, 0, 0]],
      FilterCall \<lparr>rows = 4, cols = 4, cells = replicate 16 1\<rparr> 0 (replicate 12 0),
      ResampleCall 2,
      SamplesRead [[1, 2, 3, 4, 5, 6, 0, 0, 3 / 2, 0, 0, 0],
                   [7, 8, 9, 10, 11, 12, 0, 0, 3 / 2, 0, 0, 0]],
      SamplesCall [[1, 2, 3, 4, 5, 6, 1, 2, 3, 4, 5, 6],
                   [7, 8, 9, 10, 11, 12, 7, 8, 9, 10, 11, 12]],
      FilterCall \<lparr>rows = 4, cols = 4, cells = replicate 16 1\<rparr> 0 (replicate 12 0),
      ResampleCall 2,
      SamplesRead [[1, 2, 3, 4, 5, 6, 1, 2, 3, 4, 5, 6],
                   [7, 8, 9, 10, 11, 12, 7, 8, 9, 10, 11, 12]],
      ResampleCall 2,
      SamplingBlocksCall [[0, 1, 2, 3, 4, 5], [6, 7, 8, 9, 10, 11]]] \<and>
   map_option (pf_samples \<circ> fst) (filter_ptr (snd
     (Initialize reference (settings 4 [[0, 1, 2, 3, 4, 5], [6, 7, 8, 9, 10, 11]])
        [[1, 2, 3, 4, 5, 6], [7, 8, 9, 10, 11, 12]] (frame 0 4 4) pinhole True pair)))
   = Some [[1, 2, 3, 4, 5, 6, 1, 2, 3, 4, 5, 6], [7, 8, 9, 10, 11, 12, 7, 8, 9, 10, 11, 12]]"
proof -
  let ?run = "Initialize reference (settings 4 [[0, 1, 2, 3, 4, 5], [6, 7, 8, 9, 10, 11]])
          [[1, 2, 3, 4, 5, 6], [7, 8, 9, 10, 11, 12]] (frame 0 4 4) pinhole True pair"
  have r: "fst ?run = None"
    by code_simp
  then have ok: "?run = (None, snd ?run)"
    by (simp add: prod_eq_iff)
  have v: "calls_of (snd ?run)
   = [SamplingBlocksCall [[0, 1, 2, 3, 4, 5, 6, 7, 8, 9, 10, 11]],
      SamplesCall [[1, 2, 3, 4, 5, 6, 0, 0, 3 / 2, 0, 0, 0],
                   [7, 8, 9, 10, 11, 12, 0, 0, 3 / 2, 0, 0, 0]],
      FilterCall \<lparr>rows = 4, cols = 4, cells = replicate 16 1\<rparr> 0 (replicate 12 0),
      ResampleCall 2,
      SamplesRead [[1, 2, 3, 4, 5, 6, 0, 0, 3 / 2, 0, 0, 0],
                   [7, 8, 9, 10, 11, 12, 0, 0, 3 / 2, 0, 0, 0]],
      SamplesCall [[1, 2, 3, 4, 5, 6, 1, 2, 3, 4, 5, 6],
                   [7, 8, 9, 10, 11, 12, 7, 8, 9, 10, 11, 12]],
      FilterCall \<lparr>rows = 4, cols = 4, cells = replicate 16 1\<rparr> 0 (replicate 12 0),
      ResampleCall 2,
      SamplesRead [[1, 2, 3, 4, 5, 6, 1, 2, 3, 4, 5, 6],
                   [7, 8, 9, 10, 11, 12, 7, 8, 9, 10, 11, 12]],
      ResampleCall 2,
      SamplingBlocksCall [[0, 1, 2, 3, 4, 5], [6, 7, 8, 9, 10, 11]]]"
    by code_simp
  have w: "map_option (pf_samples \<circ> fst) (filter_ptr (snd ?run))
   = Some [[1, 2, 3, 4, 5, 6, 1, 2, 3, 4, 5, 6], [7, 8, 9, 10, 11, 12, 7, 8, 9, 10, 11, 12]]"
    by code_simp
  from staged_initialization_cycles[OF reference_selects_at_rest ok]
    reference_selects_at_rest r v w
  show ?thesis by blast
qed

text \<open>C2 (amended): during a staged partial initialization that returns, on a filter that
  meets its contract, the schedule in force at the filter step of every stage is the one
  installed before the first stage, a single block that holds all \<open>6k\<close> coordinates. The
  calls of a stage install no schedule: the log installs two schedules, that block first
  and the configured schedule last, after the final resample. What a stage holds fixed
  outside the block of its object, it holds by the samples it hands to the filter: in
  stage \<open>b\<close> every sample handed to the filter has, in every block but \<open>b\<close>, the value of the
  sample of the same index in the population the stage started with (the initial one, or
  the one read back from the stage before); and when there are candidates, every sample
  read back after the stage is one of those handed in.\<close>

theorem staged_schedule_is_full_joint:
  assumes c: "selects_at_rest ops"
    and ok: "Initialize ops cfg initial_states ros_image camera_matrix True tr = (None, tr')"
  shows "\<exists>depth f0 g sets outs.
     Ros2Eigen ops ros_image (downsampling_factor tr) = Inr depth \<and>
     new_filter ops
       (constructor_args cfg (object_names tr)
          (scale_camera ops camera_matrix (downsampling_factor tr)) depth
          (length initial_states)) = Inr f0 \<and>
     tr' = tr\<lparr>filter_ptr := Some (g, calls_of tr')\<rparr> \<and>
     calls_of tr' =
       [SamplingBlocksCall [[0..<length (object_names tr) * 6]]] @
       concat (map (\<lambda>b. stage_calls depth (length (object_names tr)) (sets ! b) (outs ! b))
                 [0..<length (object_names tr)]) @
       [ResampleCall (nat (evaluation_count cfg mod 2 ^ 64) div length (sampling_blocks cfg)),
        SamplingBlocksCall (sampling_blocks cfg)] \<and>
     g = replay ops (calls_of tr') f0 \<and> clean ops (calls_of tr') f0 \<and>
     schedules_installed (calls_of tr') =
       [[[0..<length (object_names tr) * 6]], sampling_blocks cfg] \<and>
     active_schedules (sampling_blocks cfg) (calls_of tr') =
       replicate (length (object_names tr)) [[0..<length (object_names tr) * 6]] \<and>
     length sets = length (object_names tr) \<and> length outs = length (object_names tr) \<and>
     (\<forall>b<length (object_names tr). \<forall>i<length initial_states. \<forall>j. j \<noteq> b \<longrightarrow>
        body j (sets ! b ! i) =
        body j ((replicate (length initial_states) (default_state (length (object_names tr)))
                  # outs) ! b ! i)) \<and>
     (initial_states \<noteq> [] \<longrightarrow>
        (\<forall>b<length (object_names tr). set (outs ! b) \<subseteq> set (sets ! b)))"
proof -
  define k where "k = length (object_names tr)"
  define ms where "ms = replicate (length initial_states) (default_state k)"
  define M where "M = nat (evaluation_count cfg mod 2 ^ 64) div length (sampling_blocks cfg)"
  from Initialize_partial[OF c ok]
  obtain depth f0 g sets outs where
    d: "Ros2Eigen ops ros_image (downsampling_factor tr) = Inr depth"
    and f0: "new_filter ops
       (constructor_args cfg (object_names tr)
          (scale_camera ops camera_matrix (downsampling_factor tr)) depth
          (length initial_states)) = Inr f0"
    and tr': "tr' = tr\<lparr>filter_ptr := Some (g,
       [SamplingBlocksCall [[0..<k * 6]]] @
       concat (map (\<lambda>j. stage_calls depth k (sets ! j) (outs ! j)) [0..<k]) @
       [ResampleCall M, SamplingBlocksCall (sampling_blocks cfg)])\<rparr>"
    and g: "g = replay ops
       ([SamplingBlocksCall [[0..<k * 6]]] @
        concat (map (\<lambda>j. stage_calls depth k (sets ! j) (outs ! j)) [0..<k]) @
        [ResampleCall M, SamplingBlocksCall (sampling_blocks cfg)]) f0"
    and cl: "clean ops
       ([SamplingBlocksCall [[0..<k * 6]]] @
        concat (map (\<lambda>j. stage_calls depth k (sets ! j) (outs ! j)) [0..<k]) @
        [ResampleCall M, SamplingBlocksCall (sampling_blocks cfg)]) f0"
    and len: "length sets = k" "length outs = k"
    and props: "\<forall>j<k.
        sets ! j = map (\<lambda>i. put_body j (initial_states ! i) ((ms # outs) ! j ! i))
                     [0..<length initial_states] \<and>
        length ((ms # outs) ! j) = length initial_states \<and>
        (\<forall>i<length initial_states. length (initial_states ! i) = 6 \<and>
           j * 6 + 6 \<le> length ((ms # outs) ! j ! i)) \<and>
        (initial_states \<noteq> [] \<longrightarrow>
           length (outs ! j) = length initial_states \<and> set (outs ! j) \<subseteq> set (sets ! j))"
    unfolding k_def ms_def M_def by blast
  have calls: "calls_of tr' =
       [SamplingBlocksCall [[0..<k * 6]]] @
       concat (map (\<lambda>j. stage_calls depth k (sets ! j) (outs ! j)) [0..<k]) @
       [ResampleCall M, SamplingBlocksCall (sampling_blocks cfg)]"
    unfolding tr' by (simp add: calls_of_def)
  have 1: "tr' = tr\<lparr>filter_ptr := Some (g, calls_of tr')\<rparr>"
    unfolding calls unfolding tr' by simp
  have 2: "g = replay ops (calls_of tr') f0" "clean ops (calls_of tr') f0"
    using g cl unfolding calls by simp_all
  have 3: "schedules_installed (calls_of tr') = [[[0..<k * 6]], sampling_blocks cfg]"
    unfolding calls
    by (simp add: schedules_installed_stages[where sets = "(!) sets" and outs = "(!) outs"])
  have 4: "active_schedules (sampling_blocks cfg) (calls_of tr') = replicate k [[0..<k * 6]]"
    unfolding calls
    by (simp add: active_schedules_stages[where sets = "(!) sets" and outs = "(!) outs"])
  have fixed: "body j (sets ! b ! i) = body j ((ms # outs) ! b ! i)"
    if b: "b < k" and i: "i < length initial_states" and j: "j \<noteq> b" for b i j
  proof -
    note pb = props[rule_format, OF b]
    have s: "sets ! b ! i = put_body b (initial_states ! i) ((ms # outs) ! b ! i)"
      using pb i by simp
    have b6: "b * 6 + 6 \<le> length ((ms # outs) ! b ! i)" and v: "length (initial_states ! i) = 6"
      using pb i by auto
    show ?thesis unfolding s by (rule body_put_body_other[OF b6 v j])
  qed
  have sel: "set (outs ! b) \<subseteq> set (sets ! b)" if "initial_states \<noteq> []" "b < k" for b
    using props[rule_format, OF that(2)] that(1) by blast
  show ?thesis
    unfolding k_def[symmetric] M_def[symmetric] ms_def[symmetric]
    using d f0 1 calls 2 3 4 len fixed sel by blast
qed

theorem staged_schedule_is_full_joint_witness:
  "selects_at_rest reference \<and>
   fst (Initialize reference (settings 4 [[0, 1, 2, 3, 4, 5], [6, 7, 8, 9, 10, 11]])
          [[1, 2, 3, 4, 5, 6], [6, 5, 4, 3, 2, 1]] (frame 0 4 4) pinhole True pair) = None \<and>
   (\<exists>depth f0 g sets outs.
     Ros2Eigen reference (frame 0 4 4) (downsampling_factor pair) = Inr depth \<and>
     new_filter reference
       (constructor_args (settings 4 [[0, 1, 2, 3, 4, 5], [6, 7, 8, 9, 10, 11]])
          (object_names pair) (scale_camera reference pinhole (downsampling_factor pair)) depth
          (length [[1, 2, 3, 4, 5, 6], [6, 5, 4, 3, 2, 1::real]])) = Inr f0 \<and>
     snd (Initialize reference (settings 4 [[0, 1, 2, 3, 4, 5], [6, 7, 8, 9, 10, 11]])
            [[1, 2, 3, 4, 5, 6], [6, 5, 4, 3, 2, 1]] (frame 0 4 4) pinhole True pair)
       = pair\<lparr>filter_ptr := Some (g, calls_of (snd
           (Initialize reference (settings 4 [[0, 1, 2, 3, 4, 5], [6, 7, 8, 9, 10, 11]])
              [[1, 2, 3, 4, 5, 6], [6, 5, 4, 3, 2, 1]] (frame 0 4 4) pinhole True pair)))\<rparr> \<and>
     calls_of (snd (Initialize reference (settings 4 [[0, 1, 2, 3, 4, 5], [6, 7, 8, 9, 10, 11]])
            [[1, 2, 3, 4, 5, 6], [6, 5, 4, 3, 2, 1]] (frame 0 4 4) pinhole True pair)) =
       [SamplingBlocksCall [[0..<length (object_names pair) * 6]]] @
       concat (map (\<lambda>b. stage_calls depth (length (object_names pair)) (sets ! b) (outs ! b))
                 [0..<length (object_names pair)]) @
       [ResampleCall (nat (evaluation_count (settings 4 [[0, 1, 2, 3, 4, 5], [6, 7, 8, 9, 10, 11]])
                             mod 2 ^ 64)
                        div length (sampling_blocks
                                      (settings 4 [[0, 1, 2, 3, 4, 5], [6, 7, 8, 9, 10, 11]]))),
        SamplingBlocksCall
          (sampling_blocks (settings 4 [[0, 1, 2, 3, 4, 5], [6, 7, 8, 9, 10, 11]]))] \<and>
     g = replay reference (calls_of (snd
           (Initialize reference (settings 4 [[0, 1, 2, 3, 4, 5], [6, 7, 8, 9, 10, 11]])
              [[1, 2, 3, 4, 5, 6], [6, 5, 4, 3, 2, 1]] (frame 0 4 4) pinhole True pair))) f0 \<and>
     clean reference (calls_of (snd
           (Initialize reference (settings 4 [[0, 1, 2, 3, 4, 5], [6, 7, 8, 9, 10, 11]])
              [[1, 2, 3, 4, 5, 6], [6, 5, 4, 3, 2, 1]] (frame 0 4 4) pinhole True pair))) f0 \<and>
     schedules_installed (calls_of (snd
           (Initialize reference (settings 4 [[0, 1, 2, 3, 4, 5], [6, 7, 8, 9, 10, 11]])
              [[1, 2, 3, 4, 5, 6], [6, 5, 4, 3, 2, 1]] (frame 0 4 4) pinhole True pair))) =
       [[[0..<length (object_names pair) * 6]],
        sampling_blocks (settings 4 [[0, 1, 2, 3, 4, 5], [6, 7, 8, 9, 10, 11]])] \<and>
     active_schedules (sampling_blocks (settings 4 [[0, 1, 2, 3, 4, 5], [6, 7, 8, 9, 10, 11]]))
       (calls_of (snd
           (Initialize reference (settings 4 [[0, 1, 2, 3, 4, 5], [6, 7, 8, 9, 10, 11]])
              [[1, 2, 3, 4, 5, 6], [6, 5, 4, 3, 2, 1]] (frame 0 4 4) pinhole True pair))) =
       replicate (length (object_names pair)) [[0..<length (object_names pair) * 6]] \<and>
     length sets = length (object_names pair) \<and> length outs = length (object_names pair) \<and>
     (\<forall>b<length (object_names pair).
        \<forall>i<length [[1, 2, 3, 4, 5, 6], [6, 5, 4, 3, 2, 1::real]]. \<forall>j. j \<noteq> b \<longrightarrow>
        body j (sets ! b ! i) =
        body j ((replicate (length [[1, 2, 3, 4, 5, 6], [6, 5, 4, 3, 2, 1::real]])
                   (default_state (length (object_names pair))) # outs) ! b ! i)) \<and>
     ([[1, 2, 3, 4, 5, 6], [6, 5, 4, 3, 2, 1::real]] \<noteq> [] \<longrightarrow>
        (\<forall>b<length (object_names pair). set (outs ! b) \<subseteq> set (sets ! b)))) \<and>
   handed_samples (calls_of (snd
     (Initialize reference (settings 4 [[0, 1, 2, 3, 4, 5], [6, 7, 8, 9, 10, 11]])
        [[1, 2, 3, 4, 5, 6], [6, 5, 4, 3, 2, 1]] (frame 0 4 4) pinhole True pair)))
   = [[[1, 2, 3, 4, 5, 6, 0, 0, 3 / 2, 0, 0, 0], [6, 5, 4, 3, 2, 1, 0, 0, 3 / 2, 0, 0, 0]],
      [[1, 2, 3, 4, 5, 6, 1, 2, 3, 4, 5, 6], [6, 5, 4, 3, 2, 1, 6, 5, 4, 3, 2, 1]]]"
proof -
  let ?run = "Initialize reference (settings 4 [[0, 1, 2, 3, 4, 5], [6, 7, 8, 9, 10, 11]])
          [[1, 2, 3, 4, 5, 6], [6, 5, 4, 3, 2, 1]] (frame 0 4 4) pinhole True pair"
  have r: "fst ?run = None"
    by code_simp
  then have ok: "?run = (None, snd ?run)"
    by (simp add: prod_eq_iff)
  have v: "handed_samples (calls_of (snd ?run))
   = [[[1, 2, 3, 4, 5, 6, 0, 0, 3 / 2, 0, 0, 0], [6, 5, 4, 3, 2, 1, 0, 0, 3 / 2, 0, 0, 0]],
      [[1, 2, 3, 4, 5, 6, 1, 2, 3, 4, 5, 6], [6, 5, 4, 3, 2, 1, 6, 5, 4, 3, 2, 1]]]"
    by code_simp
  from staged_schedule_is_full_joint[OF reference_selects_at_rest ok]
    reference_selects_at_rest r v
  show ?thesis by blast
qed

theorem staged_schedule_is_full_joint_counterexample:
  "fst (Initialize reference (settings 4 [[0, 1, 2, 3, 4, 5], [6, 7, 8, 9, 10, 11]])
          [[1, 2, 3, 4, 5, 6]] (frame 0 4 4) pinhole True pair) = None \<and>
   active_schedules [[0, 1, 2, 3, 4, 5], [6, 7, 8, 9, 10, 11]] (calls_of (snd
     (Initialize reference (settings 4 [[0, 1, 2, 3, 4, 5], [6, 7, 8, 9, 10, 11]])
        [[1, 2, 3, 4, 5, 6]] (frame 0 4 4) pinhole True pair)))
   = [[[0, 1, 2, 3, 4, 5, 6, 7, 8, 9, 10, 11]], [[0, 1, 2, 3, 4, 5, 6, 7, 8, 9, 10, 11]]] \<and>
   [[[0, 1, 2, 3, 4, 5, 6, 7, 8, 9, 10, 11]], [[0, 1, 2, 3, 4, 5, 6, 7, 8, 9, 10, 11]]]
     \<noteq> [[[0, 1, 2, 3, 4, 5]], [[6, 7, 8, 9, 10, 11::nat]]]"
  by code_simp

section \<open>The sentinel pose\<close>

text \<open>C8: invariant of the staged partial initialization that returns, for a filter that
  meets its contract. The population at the start of stage \<open>b\<close> is the initial one for
  \<open>b = 0\<close> and otherwise the one read back from the filter after the resample of stage
  \<open>b - 1\<close> (the list \<open>outs\<close> holds the populations read back, \<open>sets\<close> the populations handed
  to the filter, and the log shows that they are). In every sample of it, and of the
  population handed to the filter in stage \<open>b\<close>, every object of an index greater than \<open>b\<close>
  sits at the one pose \<open>(0, 0, 1.5)\<close> with zero orientation; every object of an index less
  than \<open>b\<close> is handed to the filter with the value it has in the population read back
  from the previous stage.\<close>

theorem staged_sentinel_invariant:
  assumes c: "selects_at_rest ops"
    and ok: "Initialize ops cfg initial_states ros_image camera_matrix True tr = (None, tr')"
  shows "\<exists>depth f0 g sets outs.
     Ros2Eigen ops ros_image (downsampling_factor tr) = Inr depth \<and>
     new_filter ops
       (constructor_args cfg (object_names tr)
          (scale_camera ops camera_matrix (downsampling_factor tr)) depth
          (length initial_states)) = Inr f0 \<and>
     tr' = tr\<lparr>filter_ptr := Some (g, calls_of tr')\<rparr> \<and>
     calls_of tr' =
       [SamplingBlocksCall [[0..<length (object_names tr) * 6]]] @
       concat (map (\<lambda>b. stage_calls depth (length (object_names tr)) (sets ! b) (outs ! b))
                 [0..<length (object_names tr)]) @
       [ResampleCall (nat (evaluation_count cfg mod 2 ^ 64) div length (sampling_blocks cfg)),
        SamplingBlocksCall (sampling_blocks cfg)] \<and>
     g = replay ops (calls_of tr') f0 \<and> clean ops (calls_of tr') f0 \<and>
     length sets = length (object_names tr) \<and> length outs = length (object_names tr) \<and>
     (\<forall>b<length (object_names tr). \<forall>i<length initial_states. \<forall>j<length (object_names tr).
        (b < j \<longrightarrow>
           body j ((replicate (length initial_states) (default_state (length (object_names tr)))
                     # outs) ! b ! i) = [0, 0, 1.5, 0, 0, 0] \<and>
           body j (sets ! b ! i) = [0, 0, 1.5, 0, 0, 0]) \<and>
        (j < b \<longrightarrow>
           body j (sets ! b ! i) =
           body j ((replicate (length initial_states) (default_state (length (object_names tr)))
                     # outs) ! b ! i)))"
proof -
  define k where "k = length (object_names tr)"
  define ms where "ms = replicate (length initial_states) (default_state k)"
  define M where "M = nat (evaluation_count cfg mod 2 ^ 64) div length (sampling_blocks cfg)"
  from Initialize_partial[OF c ok]
  obtain depth f0 g sets outs where
    d: "Ros2Eigen ops ros_image (downsampling_factor tr) = Inr depth"
    and f0: "new_filter ops
       (constructor_args cfg (object_names tr)
          (scale_camera ops camera_matrix (downsampling_factor tr)) depth
          (length initial_states)) = Inr f0"
    and tr': "tr' = tr\<lparr>filter_ptr := Some (g,
       [SamplingBlocksCall [[0..<k * 6]]] @
       concat (map (\<lambda>j. stage_calls depth k (sets ! j) (outs ! j)) [0..<k]) @
       [ResampleCall M, SamplingBlocksCall (sampling_blocks cfg)])\<rparr>"
    and g: "g = replay ops
       ([SamplingBlocksCall [[0..<k * 6]]] @
        concat (map (\<lambda>j. stage_calls depth k (sets ! j) (outs ! j)) [0..<k]) @
        [ResampleCall M, SamplingBlocksCall (sampling_blocks cfg)]) f0"
    and cl: "clean ops
       ([SamplingBlocksCall [[0..<k * 6]]] @
        concat (map (\<lambda>j. stage_calls depth k (sets ! j) (outs ! j)) [0..<k]) @
        [ResampleCall M, SamplingBlocksCall (sampling_blocks cfg)]) f0"
    and len: "length sets = k" "length outs = k"
    and props: "\<forall>j<k.
        sets ! j = map (\<lambda>i. put_body j (initial_states ! i) ((ms # outs) ! j ! i))
                     [0..<length initial_states] \<and>
        length ((ms # outs) ! j) = length initial_states \<and>
        (\<forall>i<length initial_states. length (initial_states ! i) = 6 \<and>
           j * 6 + 6 \<le> length ((ms # outs) ! j ! i)) \<and>
        (initial_states \<noteq> [] \<longrightarrow>
           length (outs ! j) = length initial_states \<and> set (outs ! j) \<subseteq> set (sets ! j))"
    unfolding k_def ms_def M_def by blast
  have calls: "calls_of tr' =
       [SamplingBlocksCall [[0..<k * 6]]] @
       concat (map (\<lambda>j. stage_calls depth k (sets ! j) (outs ! j)) [0..<k]) @
       [ResampleCall M, SamplingBlocksCall (sampling_blocks cfg)]"
    unfolding tr' by (simp add: calls_of_def)
  have 1: "tr' = tr\<lparr>filter_ptr := Some (g, calls_of tr')\<rparr>"
    unfolding calls unfolding tr' by simp
  have 2: "g = replay ops (calls_of tr') f0" "clean ops (calls_of tr') f0"
    using g cl unfolding calls by simp_all
  have start: "\<forall>s\<in>set ms. \<forall>j<k. body j s = [0, 0, 1.5, 0, 0, 0]"
    by (simp add: ms_def body_default_state)
  have inv: "(b < j \<longrightarrow> body j ((ms # outs) ! b ! i) = [0, 0, 1.5, 0, 0, 0] \<and>
                      body j (sets ! b ! i) = [0, 0, 1.5, 0, 0, 0]) \<and>
             (j < b \<longrightarrow> body j (sets ! b ! i) = body j ((ms # outs) ! b ! i))"
    if b: "b < k" and i: "i < length initial_states" and j: "j < k" for b i j
  proof -
    note pb = props[rule_format, OF b]
    let ?p = "(ms # outs) ! b ! i"
    have mem: "?p \<in> set ((ms # outs) ! b)" using pb i by simp
    have s_eq: "sets ! b ! i = put_body b (initial_states ! i) ?p"
      using pb i by simp
    have b6: "b * 6 + 6 \<le> length ?p" and v: "length (initial_states ! i) = 6"
      using pb i by auto
    have other: "body j (sets ! b ! i) = body j ?p" if "j \<noteq> b"
      unfolding s_eq by (rule body_put_body_other[OF b6 v that])
    have pending: "body j ?p = [0, 0, 1.5, 0, 0, 0]" if "b < j"
      using sentinel_kept[OF props start b] mem j that by auto
    show ?thesis using other pending by auto
  qed
  show ?thesis
    unfolding k_def[symmetric] M_def[symmetric] ms_def[symmetric]
    using d f0 1 calls 2 len inv by blast
qed

theorem staged_sentinel_invariant_witness:
  "selects_at_rest reference \<and>
   fst (Initialize reference
          (settings 6 [[0, 1, 2, 3, 4, 5], [6, 7, 8, 9, 10, 11], [12, 13, 14, 15, 16, 17]])
          [[1, 2, 3, 4, 5, 6], [7, 8, 9, 10, 11, 12]] (frame 0 4 4) pinhole True trio) = None \<and>
   (\<exists>depth f0 g sets outs.
     Ros2Eigen reference (frame 0 4 4) (downsampling_factor trio) = Inr depth \<and>
     new_filter reference
       (constructor_args
          (settings 6 [[0, 1, 2, 3, 4, 5], [6, 7, 8, 9, 10, 11], [12, 13, 14, 15, 16, 17]])
          (object_names trio) (scale_camera reference pinhole (downsampling_factor trio)) depth
          (length [[1, 2, 3, 4, 5, 6], [7, 8, 9, 10, 11, 12::real]])) = Inr f0 \<and>
     snd (Initialize reference
            (settings 6 [[0, 1, 2, 3, 4, 5], [6, 7, 8, 9, 10, 11], [12, 13, 14, 15, 16, 17]])
            [[1, 2, 3, 4, 5, 6], [7, 8, 9, 10, 11, 12]] (frame 0 4 4) pinhole True trio)
       = trio\<lparr>filter_ptr := Some (g, calls_of (snd
           (Initialize reference
              (settings 6 [[0, 1, 2, 3, 4, 5], [6, 7, 8, 9, 10, 11], [12, 13, 14, 15, 16, 17]])
              [[1, 2, 3, 4, 5, 6], [7, 8, 9, 10, 11, 12]] (frame 0 4 4) pinhole True trio)))\<rparr> \<and>
     calls_of (snd (Initialize reference
            (settings 6 [[0, 1, 2, 3, 4, 5], [6, 7, 8, 9, 10, 11], [12, 13, 14, 15, 16, 17]])
            [[1, 2, 3, 4, 5, 6], [7, 8, 9, 10, 11, 12]] (frame 0 4 4) pinhole True trio)) =
       [SamplingBlocksCall [[0..<length (object_names trio) * 6]]] @
       concat (map (\<lambda>b. stage_calls depth (length (object_names trio)) (sets ! b) (outs ! b))
                 [0..<length (object_names trio)]) @
       [ResampleCall
          (nat (evaluation_count
                  (settings 6 [[0, 1, 2, 3, 4, 5], [6, 7, 8, 9, 10, 11], [12, 13, 14, 15, 16, 17]])
                mod 2 ^ 64)
             div length (sampling_blocks
                  (settings 6 [[0, 1, 2, 3, 4, 5], [6, 7, 8, 9, 10, 11], [12, 13, 14, 15, 16, 17]]))),
        SamplingBlocksCall
          (sampling_blocks
             (settings 6 [[0, 1, 2, 3, 4, 5], [6, 7, 8, 9, 10, 11], [12, 13, 14, 15, 16, 17]]))] \<and>
     g = replay reference (calls_of (snd
           (Initialize reference
              (settings 6 [[0, 1, 2, 3, 4, 5], [6, 7, 8, 9, 10, 11], [12, 13, 14, 15, 16, 17]])
              [[1, 2, 3, 4, 5, 6], [7, 8, 9, 10, 11, 12]] (frame 0 4 4) pinhole True trio))) f0 \<and>
     clean reference (calls_of (snd
           (Initialize reference
              (settings 6 [[0, 1, 2, 3, 4, 5], [6, 7, 8, 9, 10, 11], [12, 13, 14, 15, 16, 17]])
              [[1, 2, 3, 4, 5, 6], [7, 8, 9, 10, 11, 12]] (frame 0 4 4) pinhole True trio))) f0 \<and>
     length sets = length (object_names trio) \<and> length outs = length (object_names trio) \<and>
     (\<forall>b<length (object_names trio).
        \<forall>i<length [[1, 2, 3, 4, 5, 6], [7, 8, 9, 10, 11, 12::real]].
        \<forall>j<length (object_names trio).
        (b < j \<longrightarrow>
           body j ((replicate (length [[1, 2, 3, 4, 5, 6], [7, 8, 9, 10, 11, 12::real]])
                      (default_state (length (object_names trio))) # outs) ! b ! i)
             = [0, 0, 1.5, 0, 0, 0] \<and>
           body j (sets ! b ! i) = [0, 0, 1.5, 0, 0, 0]) \<and>
        (j < b \<longrightarrow>
           body j (sets ! b ! i) =
           body j ((replicate (length [[1, 2, 3, 4, 5, 6], [7, 8, 9, 10, 11, 12::real]])
                      (default_state (length (object_names trio))) # outs) ! b ! i)))) \<and>
   stepped_samples [] (calls_of (snd
     (Initialize reference
        (settings 6 [[0, 1, 2, 3, 4, 5], [6, 7, 8, 9, 10, 11], [12, 13, 14, 15, 16, 17]])
        [[1, 2, 3, 4, 5, 6], [7, 8, 9, 10, 11, 12]] (frame 0 4 4) pinhole True trio)))
   = [[[1, 2, 3, 4, 5, 6, 0, 0, 3 / 2, 0, 0, 0, 0, 0, 3 / 2, 0, 0, 0],
       [7, 8, 9, 10, 11, 12, 0, 0, 3 / 2, 0, 0, 0, 0, 0, 3 / 2, 0, 0, 0]],
      [[1, 2, 3, 4, 5, 6, 1, 2, 3, 4, 5, 6, 0, 0, 3 / 2, 0, 0, 0],
       [7, 8, 9, 10, 11, 12, 7, 8, 9, 10, 11, 12, 0, 0, 3 / 2, 0, 0, 0]],
      [[1, 2, 3, 4, 5, 6, 1, 2, 3, 4, 5, 6, 1, 2, 3, 4, 5, 6],
       [7, 8, 9, 10, 11, 12, 7, 8, 9, 10, 11, 12, 7, 8, 9, 10, 11, 12]]]"
proof -
  let ?run = "Initialize reference
          (settings 6 [[0, 1, 2, 3, 4, 5], [6, 7, 8, 9, 10, 11], [12, 13, 14, 15, 16, 17]])
          [[1, 2, 3, 4, 5, 6], [7, 8, 9, 10, 11, 12]] (frame 0 4 4) pinhole True trio"
  have r: "fst ?run = None"
    by code_simp
  then have ok: "?run = (None, snd ?run)"
    by (simp add: prod_eq_iff)
  have v: "stepped_samples [] (calls_of (snd ?run))
   = [[[1, 2, 3, 4, 5, 6, 0, 0, 3 / 2, 0, 0, 0, 0, 0, 3 / 2, 0, 0, 0],
       [7, 8, 9, 10, 11, 12, 0, 0, 3 / 2, 0, 0, 0, 0, 0, 3 / 2, 0, 0, 0]],
      [[1, 2, 3, 4, 5, 6, 1, 2, 3, 4, 5, 6, 0, 0, 3 / 2, 0, 0, 0],
       [7, 8, 9, 10, 11, 12, 7, 8, 9, 10, 11, 12, 0, 0, 3 / 2, 0, 0, 0]],
      [[1, 2, 3, 4, 5, 6, 1, 2, 3, 4, 5, 6, 1, 2, 3, 4, 5, 6],
       [7, 8, 9, 10, 11, 12, 7, 8, 9, 10, 11, 12, 7, 8, 9, 10, 11, 12]]]"
    by code_simp
  from staged_sentinel_invariant[OF reference_selects_at_rest ok]
    reference_selects_at_rest r v
  show ?thesis by blast
qed

section \<open>No candidates\<close>








end
